theory Spec2Isabelle
  imports Complex_Main
begin

section \<open>JavaScript values\<close>

text \<open>
  A property of a JavaScript object is absent (\<open>undefined\<close>), \<open>null\<close>, or holds a
  value. The fields of the column, cell and option objects are typed as the JSDoc of
  \<open>PDFTable\<close> documents them: strings, numbers and booleans. Numbers are the
  reals; the rounding of IEEE doubles, \<open>NaN\<close> and the infinities are outside the
  model.
\<close>

datatype 'a js = Undefined | Null | Val 'a

text \<open>JavaScript truthiness of a string, a number and a boolean.\<close>

definition truthy_str :: "string \<Rightarrow> bool" where
  "truthy_str s = (s \<noteq> [])"

definition truthy_num :: "real \<Rightarrow> bool" where
  "truthy_num n = (n \<noteq> 0)"

definition truthy_bool :: "bool \<Rightarrow> bool" where
  "truthy_bool b = b"

text \<open>
  \<open>a || d\<close> where \<open>d\<close> is a value of the property's type: the left operand when it
  is truthy, otherwise \<open>d\<close>. \<open>undefined\<close> and \<open>null\<close> are falsy.
\<close>

fun js_or :: "('a \<Rightarrow> bool) \<Rightarrow> 'a js \<Rightarrow> 'a \<Rightarrow> 'a" where
  "js_or tr (Val v) d = (if tr v then v else d)"
| "js_or tr Undefined d = d"
| "js_or tr Null d = d"

text \<open>\<open>a || b\<close> where \<open>b\<close> may itself be \<open>undefined\<close> or \<open>null\<close>.\<close>

fun js_or_js :: "('a \<Rightarrow> bool) \<Rightarrow> 'a js \<Rightarrow> 'a js \<Rightarrow> 'a js" where
  "js_or_js tr (Val v) b = (if tr v then Val v else b)"
| "js_or_js tr Undefined b = b"
| "js_or_js tr Null b = b"

section \<open>PDFTable: data model\<close>

text \<open>A header or row cell, as passed by the caller (all properties optional).\<close>

record cell =
  align :: "string js"
  borderColor :: "string js"
  borderStyle :: "string js"
  borderWidth :: "real js"
  color :: "string js"
  font :: "string js"
  fontSize :: "real js"
  italic :: "bool js"
  allowWrap :: "bool js"
  emptyColor :: "string js"
  emptyFontSize :: "real js"
  emptyItalic :: "bool js"
  emptyText :: "string js"
  cellText :: "string js"

record column =
  header :: cell
  rows :: "cell list"
  width :: "real js"

record margins =
  m_bottom :: real
  m_left :: real
  m_right :: real
  m_top :: real

text \<open>The \<open>options\<close> argument of the constructor.\<close>

record options =
  o_cellAlign :: "string js"
  o_cellColor :: "string js"
  o_cellBorderWidth :: "real js"
  o_cellFont :: "string js"
  o_cellItalic :: "bool js"
  o_cellFontSize :: "real js"
  o_headerAlign :: "string js"
  o_headerColor :: "string js"
  o_headerBorderStyle :: "string js"
  o_headerBorderWidth :: "real js"
  o_headerFont :: "string js"
  o_headerItalic :: "bool js"
  o_headerFontSize :: "real js"
  o_margins :: "margins js"
  o_cellEmptyColor :: "string js"
  o_cellEmptyFontSize :: "real js"
  o_cellEmptyItalic :: "bool js"
  o_cellEmptyText :: "string js"
  o_headerEmptyColor :: "string js"
  o_headerEmptyFontSize :: "real js"
  o_headerEmptyItalic :: "bool js"
  o_headerEmptyText :: "string js"
  o_headerAllowWrap :: "bool js"
  o_cellAllowWrap :: "bool js"

text \<open>
  The fields the constructor assigns on \<open>this\<close>. \<open>cellBorderStyle\<close> is read by
  \<open>_addRow\<close> but the constructor never assigns it, so it is \<open>undefined\<close> on a
  constructed table.
\<close>

record table =
  cellAlign :: string
  cellColor :: string
  cellBorderColor :: string
  cellBorderWidth :: real
  cellFont :: string
  cellItalic :: bool
  cellFontSize :: real
  headerAlign :: string
  headerColor :: string
  headerBorderColor :: string
  headerBorderStyle :: string
  headerBorderWidth :: real
  headerFont :: string
  headerItalic :: bool
  headerFontSize :: real
  tmargins :: margins
  cellEmptyColor :: string
  cellEmptyFontSize :: real
  cellEmptyItalic :: bool
  cellEmptyText :: string
  headerEmptyColor :: string
  headerEmptyFontSize :: real
  headerEmptyItalic :: bool
  headerEmptyText :: string
  headerAllowWrap :: bool
  cellAllowWrap :: bool
  skewFactor :: real
  columns :: "column list"
  cellBorderStyle :: "string js"

definition default_margins :: margins where
  "default_margins = \<lparr>m_bottom = 30, m_left = 0, m_right = 0, m_top = 0\<rparr>"

text \<open>\<open>constructor(columns = [], options = {})\<close>, lines 79 to 111.\<close>

definition PDFTable :: "column list \<Rightarrow> options \<Rightarrow> table" where
  "PDFTable cols opts =
    (let cItalic = js_or truthy_bool (o_cellItalic opts) False;
         cFontSize = js_or truthy_num (o_cellFontSize opts) 14;
         hItalic = js_or truthy_bool (o_headerItalic opts) False;
         hFontSize = js_or truthy_num (o_headerFontSize opts) 14
     in \<lparr>cellAlign = js_or truthy_str (o_cellAlign opts) ''left'',
         cellColor = js_or truthy_str (o_cellColor opts) ''#222'',
         cellBorderColor = js_or truthy_str (o_headerColor opts) ''#ccc'',
         cellBorderWidth = js_or truthy_num (o_cellBorderWidth opts) 1,
         cellFont = js_or truthy_str (o_cellFont opts) ''Helvetica'',
         cellItalic = cItalic,
         cellFontSize = cFontSize,
         headerAlign = js_or truthy_str (o_headerAlign opts) ''left'',
         headerColor = js_or truthy_str (o_headerColor opts) ''#000'',
         headerBorderColor = js_or truthy_str (o_headerColor opts) ''#000'',
         headerBorderStyle = js_or truthy_str (o_headerBorderStyle opts) ''bottom'',
         headerBorderWidth = js_or truthy_num (o_headerBorderWidth opts) 1.5,
         headerFont = js_or truthy_str (o_headerFont opts) ''Helvetica-Bold'',
         headerItalic = hItalic,
         headerFontSize = hFontSize,
         tmargins = js_or (\<lambda>m. True) (o_margins opts) default_margins,
         cellEmptyColor = js_or truthy_str (o_cellEmptyColor opts) ''#FFFFFF'',
         cellEmptyFontSize = js_or truthy_num (o_cellEmptyFontSize opts) cFontSize,
         cellEmptyItalic = js_or truthy_bool (o_cellEmptyItalic opts) cItalic,
         cellEmptyText = js_or truthy_str (o_cellEmptyText opts) ''none'',
         headerEmptyColor = js_or truthy_str (o_headerEmptyColor opts) ''#FFFFFF'',
         headerEmptyFontSize = js_or truthy_num (o_headerEmptyFontSize opts) hFontSize,
         headerEmptyItalic = js_or truthy_bool (o_headerEmptyItalic opts) hItalic,
         headerEmptyText = js_or truthy_str (o_headerEmptyText opts) ''none'',
         headerAllowWrap = js_or truthy_bool (o_headerAllowWrap opts) False,
         cellAllowWrap = js_or truthy_bool (o_cellAllowWrap opts) False,
         skewFactor = tan ((- 15 * pi) / 180),
         columns = cols,
         cellBorderStyle = Undefined\<rparr>)"

section \<open>The drawing surface\<close>

text \<open>
  The options object of a \<open>doc.text\<close> call; a property the call does not pass is
  \<open>None\<close>.
\<close>

record text_opts =
  t_lineBreak :: "bool option"
  t_align :: "string option"
  t_lineGap :: "real option"
  t_width :: "real option"
  t_height :: "real option"
  t_ellipsis :: "bool option"

definition no_opts :: text_opts where
  "no_opts = \<lparr>t_lineBreak = None, t_align = None, t_lineGap = None, t_width = None,
     t_height = None, t_ellipsis = None\<rparr>"

text \<open>The first argument of \<open>doc.text\<close>: a string, or the page counter.\<close>

datatype content = CStr string | CNum int

text \<open>
  The calls the two classes make on the document and its builder, in the order they
  are made. \<open>Text\<close> carries the explicit position when the call passes one.
  \<open>AddPageIfNeeded\<close> carries its two arguments and what the builder returned.
\<close>

datatype call =
    Save
  | Restore
  | FillColor string
  | Font string
  | FontSize real
  | Transform real real real real real real
  | Text content "(real \<times> real) option" text_opts
  | MoveTo real real
  | LineWidth real
  | LineTo real real
  | StrokeColor string
  | Stroke
  | SwitchToPage int
  | AddPageIfNeeded int int bool
  | SetY real

text \<open>
  The document and the builder are not part of this repository's sources: the
  surface is a parameter. \<open>'d\<close> is its state; \<open>perform\<close> is the effect of a
  drawing call on it, \<open>pageCheck\<close> is \<open>builder.addPageIfNeeded\<close>.
\<close>

record 'd surface =
  pageLeft :: "'d \<Rightarrow> real"
  contentWidth :: "'d \<Rightarrow> real"
  pageCount :: "'d \<Rightarrow> int"
  doc_x :: "'d \<Rightarrow> real"
  doc_y :: "'d \<Rightarrow> real"
  perform :: "call \<Rightarrow> 'd \<Rightarrow> 'd"
  pageCheck :: "int \<Rightarrow> int \<Rightarrow> 'd \<Rightarrow> bool \<times> 'd"

record position =
  px :: real
  py :: real

text \<open>
  The fields \<open>addToPDF\<close> assigns on \<open>this\<close> and the methods update, with the
  surface state and the calls made so far.
\<close>

record 'd rstate =
  currentPage :: int
  currentPosition :: position
  startingPosition :: position
  startingPage :: int
  columnWidth :: real
  doc :: 'd
  trace :: "call list"

definition emit :: "'d surface \<Rightarrow> call \<Rightarrow> 'd rstate \<Rightarrow> 'd rstate" where
  "emit S c st = st\<lparr>doc := perform S c (doc st), trace := trace st @ [c]\<rparr>"

section \<open>PDFTable: methods\<close>

text \<open>\<open>_columnWidth(width)\<close>, lines 318 to 332; \<open>cw\<close> is \<open>this.width()\<close>.\<close>

definition calcColumnWidth :: "table \<Rightarrow> real \<Rightarrow> real js \<Rightarrow> real" where
  "calcColumnWidth t cw w =
    (if length (columns t) < 2 then cw
     else case w of
         Undefined \<Rightarrow> cw / real (length (columns t))
       | Null \<Rightarrow> cw / real (length (columns t))
       | Val v \<Rightarrow> if v < 1 then cw * v else v)"

text \<open>\<open>_headerLineGap(header)\<close> and \<open>_rowLineGap(row)\<close>, lines 334 to 342.\<close>

definition headerLineGap :: "table \<Rightarrow> cell \<Rightarrow> real" where
  "headerLineGap t h = js_or truthy_num (fontSize h) (headerFontSize t) * 1.2"

definition rowLineGap :: "table \<Rightarrow> cell \<Rightarrow> real" where
  "rowLineGap t r = js_or truthy_num (fontSize r) (cellFontSize t) * 1.07"

text \<open>\<open>text === undefined || text === null || text.length < 1\<close>.\<close>

fun isEmptyText :: "string js \<Rightarrow> bool" where
  "isEmptyText Undefined = True"
| "isEmptyText Null = True"
| "isEmptyText (Val s) = (length s < 1)"

text \<open>The string a non-empty \<open>text\<close> property holds.\<close>

fun textValue :: "string js \<Rightarrow> string" where
  "textValue (Val s) = s"
| "textValue Undefined = []"
| "textValue Null = []"

text \<open>The two option objects \<open>_addHeader\<close> and \<open>_addRow\<close> pass to \<open>doc.text\<close>.\<close>

definition wrapOpts :: "string \<Rightarrow> real \<Rightarrow> real \<Rightarrow> text_opts" where
  "wrapOpts al lineGap w =
     \<lparr>t_lineBreak = Some False, t_align = Some al, t_lineGap = Some lineGap,
      t_width = Some w, t_height = None, t_ellipsis = None\<rparr>"

definition noWrapOpts :: "string \<Rightarrow> real \<Rightarrow> real \<Rightarrow> text_opts" where
  "noWrapOpts al lineGap w =
     \<lparr>t_lineBreak = Some False, t_align = Some al, t_lineGap = Some lineGap,
      t_width = Some w, t_height = Some lineGap, t_ellipsis = Some True\<rparr>"

text \<open>\<open>_addHeader(column)\<close>, lines 172 to 232.\<close>

definition addHeader :: "'d surface \<Rightarrow> table \<Rightarrow> column \<Rightarrow> 'd rstate \<Rightarrow> 'd rstate" where
  "addHeader S t col st =
    (let h = header col;
         align' = js_or truthy_str (align h) (headerAlign t);
         borderColor' = js_or truthy_str (borderColor h) (headerBorderColor t);
         borderWidth' = js_or truthy_num (borderWidth h) (headerBorderWidth t);
         color0 = js_or truthy_str (color h) (headerColor t);
         font' = js_or truthy_str (font h) (headerFont t);
         italic0 = js_or truthy_bool (italic h) (headerItalic t);
         fontSize0 = js_or truthy_num (fontSize h) (headerFontSize t);
         lineGap = headerLineGap t h;
         position = currentPosition st;
         width' = columnWidth st;
         text0 = cellText h;
         emptyColor' = js_or truthy_str (emptyColor h) (headerEmptyColor t);
         emptyFontSize' = js_or truthy_num (emptyFontSize h) (headerEmptyFontSize t);
         emptyItalic' = js_or truthy_bool (emptyItalic h) (headerEmptyItalic t);
         emptyText' = js_or truthy_str (emptyText h) (headerEmptyText t);
         allowWrap' = js_or truthy_bool (allowWrap h) (headerAllowWrap t);
         color1 = (if isEmptyText text0 then emptyColor' else color0);
         fontSize1 = (if isEmptyText text0 then emptyFontSize' else fontSize0);
         italic1 = (if isEmptyText text0 then emptyItalic' else italic0);
         text1 = (if isEmptyText text0 then emptyText' else textValue text0);
         st1 = emit S (FontSize fontSize1)
                 (emit S (Font font') (emit S (FillColor color1) (emit S Save st)));
         st2 = (if italic1
                then emit S (Transform 1 0 (skewFactor t) 1
                               (- py position * skewFactor t + 1) 0) st1
                else st1);
         st3 = (if allowWrap'
                then emit S (Text (CStr text1) (Some (px position, py position))
                               (wrapOpts align' lineGap width')) st2
                else emit S (Text (CStr text1) (Some (px position, py position))
                               (noWrapOpts align' lineGap width')) st2);
         st4 = emit S Restore st3;
         st5 = emit S (MoveTo (doc_x S (doc st4)) (doc_y S (doc st4) - fontSize1 * 0.85)) st4;
         st6 = emit S (LineWidth borderWidth') st5;
         st7 = emit S (LineTo (doc_x S (doc st6) + width')
                              (doc_y S (doc st6) - fontSize1 * 0.85)) st6;
         st8 = emit S (StrokeColor borderColor') st7
     in emit S Stroke st8)"

text \<open>
  \<open>_addRow(column, row)\<close>, lines 234 to 310, in its two parts: the page check with
  the repeated header (lines 235 to 244), and the drawing of the row (lines 246 to
  309).
\<close>

definition addRow_pageBreak :: "'d surface \<Rightarrow> table \<Rightarrow> column \<Rightarrow> 'd rstate \<Rightarrow> 'd rstate" where
  "addRow_pageBreak S t col st =
    (let pc = pageCount S (doc st);
         r = pageCheck S (currentPage st) pc (doc st);
         newPage = fst r;
         st1 = st\<lparr>doc := snd r,
                  trace := trace st @ [AddPageIfNeeded (currentPage st) pc newPage]\<rparr>
     in if newPage
        then addHeader S t col
               (st1\<lparr>currentPage := currentPage st1 + 1,
                    currentPosition := (currentPosition st1)\<lparr>py := doc_y S (doc st1)\<rparr>\<rparr>)
        else st1)"

definition addRow_draw :: "'d surface \<Rightarrow> table \<Rightarrow> cell \<Rightarrow> 'd rstate \<Rightarrow> 'd rstate" where
  "addRow_draw S t row st =
    (let align' = js_or truthy_str (align row) (cellAlign t);
         borderColor' = js_or truthy_str (borderColor row) (cellBorderColor t);
         borderStyle' = js_or_js truthy_str (borderStyle row) (cellBorderStyle t);
         borderWidth' = js_or truthy_num (borderWidth row) (cellBorderWidth t);
         italic0 = js_or truthy_bool (italic row) (cellItalic t);
         color0 = js_or truthy_str (color row) (cellColor t);
         font' = js_or truthy_str (font row) (cellFont t);
         fontSize0 = js_or truthy_num (fontSize row) (cellFontSize t);
         allowWrap' = js_or truthy_bool (allowWrap row) (cellAllowWrap t);
         emptyColor' = js_or truthy_str (emptyColor row) (cellEmptyColor t);
         emptyFontSize' = js_or truthy_num (emptyFontSize row) (cellEmptyFontSize t);
         emptyItalic' = js_or truthy_bool (emptyItalic row) (cellEmptyItalic t);
         emptyText' = js_or truthy_str (emptyText row) (cellEmptyText t);
         text0 = cellText row;
         lineGap = rowLineGap t row;
         width' = columnWidth st;
         color1 = (if isEmptyText text0 then emptyColor' else color0);
         fontSize1 = (if isEmptyText text0 then emptyFontSize' else fontSize0);
         italic1 = (if isEmptyText text0 then emptyItalic' else italic0);
         text1 = (if isEmptyText text0 then emptyText' else textValue text0);
         st1 = emit S (FontSize fontSize1)
                 (emit S (Font font') (emit S (FillColor color1) (emit S Save st)));
         st2 = (if italic1
                then emit S (Transform 1 0 (skewFactor t) 1
                               (- doc_y S (doc st1) * skewFactor t + 1) 0) st1
                else st1);
         st3 = (if allowWrap'
                then emit S (Text (CStr text1) None (wrapOpts align' lineGap width')) st2
                else emit S (Text (CStr text1) None (noWrapOpts align' lineGap width')) st2);
         st4 = emit S Restore st3
     in if borderStyle' = Val ''none'' then st4
        else
          (let st5 = emit S (MoveTo (doc_x S (doc st4))
                                    (doc_y S (doc st4) - fontSize1 * 0.7)) st4;
               st6 = emit S (LineWidth borderWidth') st5;
               st7 = emit S (LineTo (doc_x S (doc st6) + width')
                                    (doc_y S (doc st6) - fontSize1 * 0.7)) st6;
               st8 = emit S (StrokeColor borderColor') st7
           in emit S Stroke st8))"

definition addRow :: "'d surface \<Rightarrow> table \<Rightarrow> column \<Rightarrow> cell \<Rightarrow> 'd rstate \<Rightarrow> 'd rstate" where
  "addRow S t col row st = addRow_draw S t row (addRow_pageBreak S t col st)"

text \<open>\<open>_addColumn(column)\<close>, lines 150 to 163.\<close>

definition addColumn :: "'d surface \<Rightarrow> table \<Rightarrow> column \<Rightarrow> 'd rstate \<Rightarrow> 'd rstate" where
  "addColumn S t col st =
    (let st1 = st\<lparr>columnWidth := calcColumnWidth t (contentWidth S (doc st)) (width col)\<rparr>;
         st2 = addHeader S t col st1;
         st3 = foldl (\<lambda>s row. addRow S t col row s) st2 (rows col)
     in st3\<lparr>currentPosition :=
              (currentPosition st3)\<lparr>px := px (currentPosition st3) + columnWidth st3\<rparr>\<rparr>)"

text \<open>The body of the loop of \<open>addToPDF\<close>, lines 127 to 130.\<close>

definition columnPass :: "'d surface \<Rightarrow> table \<Rightarrow> 'd rstate \<Rightarrow> column \<Rightarrow> 'd rstate" where
  "columnPass S t st col =
    (let st1 = st\<lparr>currentPage := startingPage st\<rparr>;
         st2 = st1\<lparr>currentPosition := (currentPosition st1)\<lparr>py := py (startingPosition st1)\<rparr>\<rparr>;
         st3 = emit S (SwitchToPage (currentPage st2)) st2
     in addColumn S t col st3)"

text \<open>
  \<open>addToPDF(builder)\<close>, lines 117 to 134. \<open>this.columnWidth\<close> is assigned by
  \<open>_addColumn\<close> before anything reads it; it starts here as 0.
\<close>

definition initState :: "'d surface \<Rightarrow> 'd \<Rightarrow> 'd rstate" where
  "initState S d =
     \<lparr>currentPage = pageCount S d - 1,
      currentPosition = \<lparr>px = pageLeft S d, py = doc_y S d\<rparr>,
      startingPosition = \<lparr>px = pageLeft S d, py = doc_y S d\<rparr>,
      startingPage = pageCount S d - 1,
      columnWidth = 0,
      doc = d,
      trace = []\<rparr>"

definition addToPDF :: "'d surface \<Rightarrow> table \<Rightarrow> 'd \<Rightarrow> 'd rstate" where
  "addToPDF S t d =
    (let st = foldl (columnPass S t) (initState S d) (columns t)
     in emit S (SetY (doc_y S (doc st) + m_bottom (tmargins t))) st)"

section \<open>BasicPDFFooter\<close>

text \<open>
  An entry of the footer's \<open>data\<close>: a string, an object with its \<open>label\<close> and
  \<open>value\<close> properties (strings; \<open>None\<close> is \<open>undefined\<close>), or a value that is
  neither (a number, a boolean).
\<close>

datatype entry =
    EString string
  | EObject "string option" "string option"
  | ENumber real
  | EBoolean bool

fun truthy_entry :: "entry \<Rightarrow> bool" where
  "truthy_entry (EString s) = truthy_str s"
| "truthy_entry (EObject l v) = True"
| "truthy_entry (ENumber n) = truthy_num n"
| "truthy_entry (EBoolean b) = truthy_bool b"

text \<open>\<open>options.data\<close>: absent, an array, or a single entry.\<close>

datatype data_option = DataAbsent | DataArray "entry list" | DataSingle entry

record footer_options =
  fo_includePagination :: "bool js"
  fo_data :: data_option

text \<open>What the constructor assigns on \<open>this\<close>.\<close>

record footer =
  includePagination :: bool
  initialPage :: "int option"
  fdata :: "entry list"

text \<open>\<open>constructor(options)\<close>, lines 2 to 15.\<close>

definition BasicPDFFooter :: "footer_options \<Rightarrow> footer" where
  "BasicPDFFooter opts =
    (let off = (fo_includePagination opts \<noteq> Undefined \<and>
                fo_includePagination opts \<noteq> Null \<and>
                fo_includePagination opts = Val False);
         d = (case fo_data opts of
                DataAbsent \<Rightarrow> []
              | DataArray es \<Rightarrow> es
              | DataSingle e \<Rightarrow> if truthy_entry e then [e] else [])
     in \<lparr>includePagination = \<not> off,
         initialPage = (if off then None else Some 1),
         fdata = d\<rparr>)"

text \<open>The builder as \<open>onPageAdded\<close> reads it.\<close>

record pdfBuilder =
  page_width :: real
  page_height :: real
  b_margins :: margins
  b_currentPage :: int
  title :: string

text \<open>What \<open>onPageAdded\<close> caches on \<open>this\<close> for the page.\<close>

record page_info =
  f_width :: real
  f_height :: real
  f_currentPage :: int
  docTitle :: string
  f_builder :: pdfBuilder

text \<open>The decimal digits of an integer, as a template literal prints a page number.\<close>

definition digitChar :: "nat \<Rightarrow> char" where
  "digitChar n = ''0123456789'' ! (n mod 10)"

fun showNat :: "nat \<Rightarrow> string" where
  "showNat n =
     (if n < 10 then [digitChar n]
      else showNat (n div 10) @ [digitChar (n mod 10)])"

definition showInt :: "int \<Rightarrow> string" where
  "showInt i = (if i < 0 then CHR ''-'' # showNat (nat (- i)) else showNat (nat i))"

text \<open>
  The loop of \<open>addFooterData\<close>, lines 25 to 43, over the entries that remain;
  \<open>lineHeight\<close> is the variable of that name.
\<close>

fun footerLoop :: "margins \<Rightarrow> real \<Rightarrow> real \<Rightarrow> entry list \<Rightarrow> call list" where
  "footerLoop m h lineHeight [] = []"
| "footerLoop m h lineHeight (EString s # es) =
     Text (CStr s) (Some (m_left m, (h + m_bottom m) - (lineHeight * 9))) no_opts
     # footerLoop m h (lineHeight - 1) es"
| "footerLoop m h lineHeight (EObject (Some l) (Some v) # es) =
     [Font ''Helvetica-Bold'',
      Text (CStr (l @ '':'')) (Some (m_left m, (h + m_bottom m) - (lineHeight * 9)))
        (no_opts\<lparr>t_lineBreak := Some False\<rparr>),
      Font ''Helvetica'',
      Text (CStr v) None no_opts]
     @ footerLoop m h (lineHeight - 1) es"
| "footerLoop m h lineHeight (e # es) = footerLoop m h lineHeight es"

text \<open>\<open>addFooterData()\<close>, lines 17 to 44.\<close>

definition addFooterData :: "footer \<Rightarrow> page_info \<Rightarrow> call list" where
  "addFooterData f p =
     [Font ''Helvetica'', FontSize 9]
     @ footerLoop (b_margins (f_builder p)) (f_height p)
         (real (length (fdata f)) - 1) (fdata f)"

text \<open>\<open>addPagination()\<close>, lines 46 to 56.\<close>

definition addPagination :: "page_info \<Rightarrow> call list" where
  "addPagination p =
    (let m = b_margins (f_builder p);
         text0 = CNum (f_currentPage p);
         text1 = (if length (docTitle p) > 0
                  then CStr (docTitle p @ '' - '' @ showInt (f_currentPage p))
                  else text0)
     in [FontSize 9,
         Text text1 (Some (m_left m, f_height p + m_bottom m))
           (no_opts\<lparr>t_align := Some ''right'', t_width := Some (f_width p)\<rparr>)])"

text \<open>\<open>onPageAdded(pdfBuilder)\<close>, lines 58 to 68.\<close>

definition pageInfo :: "pdfBuilder \<Rightarrow> page_info" where
  "pageInfo b =
     \<lparr>f_width = page_width b - m_left (b_margins b) - m_right (b_margins b),
      f_height = page_height b - m_top (b_margins b) - m_bottom (b_margins b),
      f_currentPage = b_currentPage b,
      docTitle = title b,
      f_builder = b\<rparr>"

definition onPageAdded :: "footer \<Rightarrow> pdfBuilder \<Rightarrow> call list" where
  "onPageAdded f b =
     addFooterData f (pageInfo b)
     @ (if includePagination f then addPagination (pageInfo b) else [])"

section \<open>Observing a render\<close>

text \<open>The calls made between a state and a later one.\<close>

definition newCalls :: "'d rstate \<Rightarrow> 'd rstate \<Rightarrow> call list" where
  "newCalls st st' = drop (length (trace st)) (trace st')"

text \<open>The surface after a list of drawing calls.\<close>

fun docAfter :: "'d surface \<Rightarrow> 'd \<Rightarrow> call list \<Rightarrow> 'd" where
  "docAfter S d [] = d"
| "docAfter S d (c # cs) = docAfter S (perform S c d) cs"

text \<open>
  What a cell is drawn with, read off the calls: the fill colour, the font size, the
  shear that stands for italic, and the text.
\<close>

datatype attr = Fill string | Size real | Italic | Drawn content

fun attrOf :: "call \<Rightarrow> attr list" where
  "attrOf (FillColor c) = [Fill c]"
| "attrOf (FontSize n) = [Size n]"
| "attrOf (Transform a b c d e f) = [Italic]"
| "attrOf (Text s p opts) = [Drawn s]"
| "attrOf c = []"

definition attrs :: "call list \<Rightarrow> attr list" where
  "attrs cs = concat (map attrOf cs)"

text \<open>The calls that draw a border line.\<close>

fun isPathCall :: "call \<Rightarrow> bool" where
  "isPathCall (MoveTo x y) = True"
| "isPathCall (LineWidth w) = True"
| "isPathCall (LineTo x y) = True"
| "isPathCall (StrokeColor c) = True"
| "isPathCall Stroke = True"
| "isPathCall c = False"

text \<open>
  The calls \<open>_addRow\<close> makes for the row itself, after its page check and the
  header that check may repeat.
\<close>

definition rowCalls ::
  "'d surface \<Rightarrow> table \<Rightarrow> column \<Rightarrow> cell \<Rightarrow> 'd rstate \<Rightarrow> call list" where
  "rowCalls S t col row st =
     newCalls (addRow_pageBreak S t col st) (addRow S t col row st)"

fun isStrokeCall :: "call \<Rightarrow> bool" where
  "isStrokeCall (StrokeColor c) = True"
| "isStrokeCall Stroke = True"
| "isStrokeCall c = False"

text \<open>The font sizes set and the line gaps passed to \<open>doc.text\<close>, in call order.\<close>

fun fontSizeOf :: "call \<Rightarrow> real list" where
  "fontSizeOf (FontSize n) = [n]"
| "fontSizeOf c = []"

fun lineGapOf :: "call \<Rightarrow> real list" where
  "lineGapOf (Text s p opts) = (case t_lineGap opts of Some g \<Rightarrow> [g] | None \<Rightarrow> [])"
| "lineGapOf c = []"

definition fontSizes :: "call list \<Rightarrow> real list" where
  "fontSizes cs = concat (map fontSizeOf cs)"

definition lineGaps :: "call list \<Rightarrow> real list" where
  "lineGaps cs = concat (map lineGapOf cs)"

text \<open>
  The renders in a list of calls. Only \<open>_addHeader\<close> draws text at an explicit
  position and only \<open>_addRow\<close> draws it at the surface's cursor, so a positioned
  text call is a header render and an unpositioned one is a row render.
\<close>

datatype ev = PageCheck bool | HeaderRender real real | RowRender

fun evOf :: "call \<Rightarrow> ev list" where
  "evOf (AddPageIfNeeded cp pc b) = [PageCheck b]"
| "evOf (Text s (Some (x, y)) opts) = [HeaderRender x y]"
| "evOf (Text s None opts) = [RowRender]"
| "evOf c = []"

definition events :: "call list \<Rightarrow> ev list" where
  "events cs = concat (map evOf cs)"

text \<open>The page index each page check was asked about, in call order.\<close>

fun checkedPageOf :: "call \<Rightarrow> int list" where
  "checkedPageOf (AddPageIfNeeded cp pc b) = [cp]"
| "checkedPageOf c = []"

definition checkedPages :: "call list \<Rightarrow> int list" where
  "checkedPages cs = concat (map checkedPageOf cs)"

text \<open>
  The renders of \<open>n\<close> rows of a column: each row is a page check and a row render,
  with one header render between them when the check reported a new page. The
  result is what follows the \<open>n\<close> rows, \<open>None\<close> when the events do not have this
  shape.
\<close>

fun rowsPattern :: "nat \<Rightarrow> ev list \<Rightarrow> ev list option" where
  "rowsPattern 0 evs = Some evs"
| "rowsPattern (Suc n) (PageCheck False # RowRender # evs) = rowsPattern n evs"
| "rowsPattern (Suc n) (PageCheck True # HeaderRender x y # RowRender # evs) =
     rowsPattern n evs"
| "rowsPattern (Suc n) evs = None"

text \<open>
  The renders of a table whose columns have the given numbers of rows: for each
  column one header render, then its rows.
\<close>

fun tablePattern :: "nat list \<Rightarrow> ev list \<Rightarrow> bool" where
  "tablePattern [] evs = (evs = [])"
| "tablePattern (n # ns) (HeaderRender x y # evs) =
     (case rowsPattern n evs of None \<Rightarrow> False | Some rest \<Rightarrow> tablePattern ns rest)"
| "tablePattern (n # ns) evs = False"

text \<open>
  A property whose value is falsy: \<open>undefined\<close>, \<open>null\<close>, or a value that is not
  truthy (the number 0, \<open>false\<close>, the empty string).
\<close>

fun isFalsy :: "('a \<Rightarrow> bool) \<Rightarrow> 'a js \<Rightarrow> bool" where
  "isFalsy tr (Val v) = (\<not> tr v)"
| "isFalsy tr Undefined = True"
| "isFalsy tr Null = True"

text \<open>A cell or an options object with every falsy style property removed.\<close>

fun absentIfFalsy :: "('a \<Rightarrow> bool) \<Rightarrow> 'a js \<Rightarrow> 'a js" where
  "absentIfFalsy tr (Val v) = (if tr v then Val v else Undefined)"
| "absentIfFalsy tr Undefined = Undefined"
| "absentIfFalsy tr Null = Undefined"

definition withoutFalsy :: "cell \<Rightarrow> cell" where
  "withoutFalsy c =
     \<lparr>align = absentIfFalsy truthy_str (align c),
      borderColor = absentIfFalsy truthy_str (borderColor c),
      borderStyle = absentIfFalsy truthy_str (borderStyle c),
      borderWidth = absentIfFalsy truthy_num (borderWidth c),
      color = absentIfFalsy truthy_str (color c),
      font = absentIfFalsy truthy_str (font c),
      fontSize = absentIfFalsy truthy_num (fontSize c),
      italic = absentIfFalsy truthy_bool (italic c),
      allowWrap = absentIfFalsy truthy_bool (allowWrap c),
      emptyColor = absentIfFalsy truthy_str (emptyColor c),
      emptyFontSize = absentIfFalsy truthy_num (emptyFontSize c),
      emptyItalic = absentIfFalsy truthy_bool (emptyItalic c),
      emptyText = absentIfFalsy truthy_str (emptyText c),
      cellText = cellText c\<rparr>"

definition optionsWithoutFalsy :: "options \<Rightarrow> options" where
  "optionsWithoutFalsy opts =
     \<lparr>o_cellAlign = absentIfFalsy truthy_str (o_cellAlign opts),
      o_cellColor = absentIfFalsy truthy_str (o_cellColor opts),
      o_cellBorderWidth = absentIfFalsy truthy_num (o_cellBorderWidth opts),
      o_cellFont = absentIfFalsy truthy_str (o_cellFont opts),
      o_cellItalic = absentIfFalsy truthy_bool (o_cellItalic opts),
      o_cellFontSize = absentIfFalsy truthy_num (o_cellFontSize opts),
      o_headerAlign = absentIfFalsy truthy_str (o_headerAlign opts),
      o_headerColor = absentIfFalsy truthy_str (o_headerColor opts),
      o_headerBorderStyle = absentIfFalsy truthy_str (o_headerBorderStyle opts),
      o_headerBorderWidth = absentIfFalsy truthy_num (o_headerBorderWidth opts),
      o_headerFont = absentIfFalsy truthy_str (o_headerFont opts),
      o_headerItalic = absentIfFalsy truthy_bool (o_headerItalic opts),
      o_headerFontSize = absentIfFalsy truthy_num (o_headerFontSize opts),
      o_margins = o_margins opts,
      o_cellEmptyColor = absentIfFalsy truthy_str (o_cellEmptyColor opts),
      o_cellEmptyFontSize = absentIfFalsy truthy_num (o_cellEmptyFontSize opts),
      o_cellEmptyItalic = absentIfFalsy truthy_bool (o_cellEmptyItalic opts),
      o_cellEmptyText = absentIfFalsy truthy_str (o_cellEmptyText opts),
      o_headerEmptyColor = absentIfFalsy truthy_str (o_headerEmptyColor opts),
      o_headerEmptyFontSize = absentIfFalsy truthy_num (o_headerEmptyFontSize opts),
      o_headerEmptyItalic = absentIfFalsy truthy_bool (o_headerEmptyItalic opts),
      o_headerEmptyText = absentIfFalsy truthy_str (o_headerEmptyText opts),
      o_headerAllowWrap = absentIfFalsy truthy_bool (o_headerAllowWrap opts),
      o_cellAllowWrap = absentIfFalsy truthy_bool (o_cellAllowWrap opts)\<rparr>"

text \<open>
  What the specification says is drawn for a footer entry placed at \<open>(x, y)\<close>: a
  string is one text span; a label and value pair is the bold label with a colon,
  without a line break, followed by the value in normal weight.
\<close>

fun entrySpans :: "real \<Rightarrow> real \<Rightarrow> entry \<Rightarrow> call list" where
  "entrySpans x y (EString s) = [Text (CStr s) (Some (x, y)) no_opts]"
| "entrySpans x y (EObject (Some l) (Some v)) =
     [Font ''Helvetica-Bold'',
      Text (CStr (l @ '':'')) (Some (x, y)) (no_opts\<lparr>t_lineBreak := Some False\<rparr>),
      Font ''Helvetica'',
      Text (CStr v) None no_opts]"
| "entrySpans x y e = []"

text \<open>An entry of one of the two kinds the specification's data model has.\<close>

fun isFooterEntry :: "entry \<Rightarrow> bool" where
  "isFooterEntry (EString s) = True"
| "isFooterEntry (EObject (Some l) (Some v)) = True"
| "isFooterEntry e = False"

fun isRightAligned :: "call \<Rightarrow> bool" where
  "isRightAligned (Text s p opts) = (t_align opts = Some ''right'')"
| "isRightAligned c = False"

section \<open>A sample surface and sample inputs\<close>

text \<open>
  A small surface to run the methods on: text drawn at a position moves the cursor
  there, every text call advances \<open>y\<close> by its line gap, and a new page is needed when
  \<open>y\<close> has passed 700 and no later page is buffered.
\<close>

record sdoc =
  sx :: real
  sy :: real
  spages :: int

definition gapOf :: "text_opts \<Rightarrow> real" where
  "gapOf opts = (case t_lineGap opts of Some g \<Rightarrow> g | None \<Rightarrow> 0)"

fun samplePerform :: "call \<Rightarrow> sdoc \<Rightarrow> sdoc" where
  "samplePerform (Text s (Some (x, y)) opts) d = d\<lparr>sx := x, sy := y + gapOf opts\<rparr>"
| "samplePerform (Text s None opts) d = d\<lparr>sy := sy d + gapOf opts\<rparr>"
| "samplePerform (SetY y) d = d\<lparr>sy := y\<rparr>"
| "samplePerform c d = d"

definition samplePageCheck :: "int \<Rightarrow> int \<Rightarrow> sdoc \<Rightarrow> bool \<times> sdoc" where
  "samplePageCheck cp pc d =
     (if 700 < sy d \<and> pc \<le> cp + 1
      then (True, d\<lparr>sy := 50, spages := spages d + 1\<rparr>)
      else (False, d))"

definition sampleSurface :: "sdoc surface" where
  "sampleSurface =
     \<lparr>pageLeft = (\<lambda>d. 40), contentWidth = (\<lambda>d. 500), pageCount = spages,
      doc_x = sx, doc_y = sy, perform = samplePerform, pageCheck = samplePageCheck\<rparr>"

definition sampleDoc :: sdoc where
  "sampleDoc = \<lparr>sx = 40, sy = 680, spages = 1\<rparr>"

definition noOptions :: options where
  "noOptions =
     \<lparr>o_cellAlign = Undefined, o_cellColor = Undefined, o_cellBorderWidth = Undefined,
      o_cellFont = Undefined, o_cellItalic = Undefined, o_cellFontSize = Undefined,
      o_headerAlign = Undefined, o_headerColor = Undefined,
      o_headerBorderStyle = Undefined, o_headerBorderWidth = Undefined,
      o_headerFont = Undefined, o_headerItalic = Undefined,
      o_headerFontSize = Undefined, o_margins = Undefined,
      o_cellEmptyColor = Undefined, o_cellEmptyFontSize = Undefined,
      o_cellEmptyItalic = Undefined, o_cellEmptyText = Undefined,
      o_headerEmptyColor = Undefined, o_headerEmptyFontSize = Undefined,
      o_headerEmptyItalic = Undefined, o_headerEmptyText = Undefined,
      o_headerAllowWrap = Undefined, o_cellAllowWrap = Undefined\<rparr>"

text \<open>The cell \<open>{ text: s }\<close> and the cell \<open>{}\<close>.\<close>

definition emptyCell :: cell where
  "emptyCell =
     \<lparr>align = Undefined, borderColor = Undefined, borderStyle = Undefined,
      borderWidth = Undefined, color = Undefined, font = Undefined,
      fontSize = Undefined, italic = Undefined, allowWrap = Undefined,
      emptyColor = Undefined, emptyFontSize = Undefined, emptyItalic = Undefined,
      emptyText = Undefined, cellText = Undefined\<rparr>"

definition textCell :: "string \<Rightarrow> cell" where
  "textCell s = emptyCell\<lparr>cellText := Val s\<rparr>"

definition sampleColumn :: "string \<Rightarrow> string list \<Rightarrow> column" where
  "sampleColumn h rs = \<lparr>header = textCell h, rows = map textCell rs, width = Undefined\<rparr>"

definition idColumn :: column where
  "idColumn = sampleColumn ''ID'' [''1'', ''2'', ''3'']"

definition sampleTable :: table where
  "sampleTable =
     PDFTable [idColumn,
               sampleColumn ''Name'' [''Billy'', ''Bob'', ''Suzy'']] noOptions"

definition sampleState :: "sdoc rstate" where
  "sampleState = initState sampleSurface sampleDoc"

text \<open>
  A table with header and cell options of its own, a cell whose every style property
  is given a falsy value, and an options object whose every option is falsy.
\<close>

definition styledOptions :: options where
  "styledOptions =
     noOptions\<lparr>o_headerFontSize := Val 20, o_headerItalic := Val True,
                o_headerColor := Val ''#111'', o_headerAlign := Val ''center'',
                o_headerFont := Val ''Courier-Bold'', o_headerBorderWidth := Val 3,
                o_headerAllowWrap := Val True, o_headerEmptyText := Val ''-'',
                o_cellFontSize := Val 10, o_cellItalic := Val True,
                o_cellColor := Val ''#333'', o_cellAlign := Val ''right'',
                o_cellFont := Val ''Courier'', o_cellBorderWidth := Val 2,
                o_cellAllowWrap := Val True, o_cellEmptyText := Val ''n/a''\<rparr>"

definition styledTable :: table where
  "styledTable = PDFTable [idColumn] styledOptions"

definition falsyCell :: "string js \<Rightarrow> cell" where
  "falsyCell txt =
     \<lparr>align = Val [], borderColor = Val [], borderStyle = Val [],
      borderWidth = Val 0, color = Val [], font = Val [], fontSize = Val 0,
      italic = Val False, allowWrap = Val False, emptyColor = Val [],
      emptyFontSize = Val 0, emptyItalic = Val False, emptyText = Val [],
      cellText = txt\<rparr>"

definition falsyOptions :: options where
  "falsyOptions =
     \<lparr>o_cellAlign = Val [], o_cellColor = Val [], o_cellBorderWidth = Val 0,
      o_cellFont = Val [], o_cellItalic = Val False, o_cellFontSize = Val 0,
      o_headerAlign = Val [], o_headerColor = Val [],
      o_headerBorderStyle = Val [], o_headerBorderWidth = Val 0,
      o_headerFont = Val [], o_headerItalic = Val False,
      o_headerFontSize = Val 0, o_margins = Null,
      o_cellEmptyColor = Val [], o_cellEmptyFontSize = Val 0,
      o_cellEmptyItalic = Val False, o_cellEmptyText = Val [],
      o_headerEmptyColor = Val [], o_headerEmptyFontSize = Val 0,
      o_headerEmptyItalic = Val False, o_headerEmptyText = Val [],
      o_headerAllowWrap = Val False, o_cellAllowWrap = Val False\<rparr>"

definition sampleBuilder :: pdfBuilder where
  "sampleBuilder =
     \<lparr>page_width = 612, page_height = 792,
      b_margins = \<lparr>m_bottom = 40, m_left = 50, m_right = 50, m_top = 40\<rparr>,
      b_currentPage = 3, title = ''Report''\<rparr>"

section \<open>Basic facts about the render state\<close>

lemma trace_emit [simp]: "trace (emit S c st) = trace st @ [c]"
  by (simp add: emit_def)

lemma doc_emit [simp]: "doc (emit S c st) = perform S c (doc st)"
  by (simp add: emit_def)

lemma frame_emit [simp]:
  "currentPage (emit S c st) = currentPage st"
  "currentPosition (emit S c st) = currentPosition st"
  "startingPosition (emit S c st) = startingPosition st"
  "startingPage (emit S c st) = startingPage st"
  "columnWidth (emit S c st) = columnWidth st"
  by (simp_all add: emit_def)

lemma frame_addHeader:
  "currentPage (addHeader S t col st) = currentPage st"
  "currentPosition (addHeader S t col st) = currentPosition st"
  "startingPosition (addHeader S t col st) = startingPosition st"
  "startingPage (addHeader S t col st) = startingPage st"
  "columnWidth (addHeader S t col st) = columnWidth st"
  by (simp_all add: addHeader_def Let_def)

lemma frame_addRow_draw:
  "currentPage (addRow_draw S t row st) = currentPage st"
  "currentPosition (addRow_draw S t row st) = currentPosition st"
  "startingPosition (addRow_draw S t row st) = startingPosition st"
  "startingPage (addRow_draw S t row st) = startingPage st"
  "columnWidth (addRow_draw S t row st) = columnWidth st"
  by (simp_all add: addRow_draw_def Let_def)

lemma header_attrs:
  "attrs (newCalls st (addHeader S t col st)) =
    (if isEmptyText (cellText (header col))
     then [Fill (js_or truthy_str (emptyColor (header col)) (headerEmptyColor t)),
           Size (js_or truthy_num (emptyFontSize (header col)) (headerEmptyFontSize t))]
          @ (if js_or truthy_bool (emptyItalic (header col)) (headerEmptyItalic t)
             then [Italic] else [])
          @ [Drawn (CStr (js_or truthy_str (emptyText (header col)) (headerEmptyText t)))]
     else [Fill (js_or truthy_str (color (header col)) (headerColor t)),
           Size (js_or truthy_num (fontSize (header col)) (headerFontSize t))]
          @ (if js_or truthy_bool (italic (header col)) (headerItalic t)
             then [Italic] else [])
          @ [Drawn (CStr (textValue (cellText (header col))))])"
  by (simp add: addHeader_def Let_def newCalls_def attrs_def)

lemma row_attrs:
  "attrs (newCalls st (addRow_draw S t row st)) =
    (if isEmptyText (cellText row)
     then [Fill (js_or truthy_str (emptyColor row) (cellEmptyColor t)),
           Size (js_or truthy_num (emptyFontSize row) (cellEmptyFontSize t))]
          @ (if js_or truthy_bool (emptyItalic row) (cellEmptyItalic t)
             then [Italic] else [])
          @ [Drawn (CStr (js_or truthy_str (emptyText row) (cellEmptyText t)))]
     else [Fill (js_or truthy_str (color row) (cellColor t)),
           Size (js_or truthy_num (fontSize row) (cellFontSize t))]
          @ (if js_or truthy_bool (italic row) (cellItalic t)
             then [Italic] else [])
          @ [Drawn (CStr (textValue (cellText row)))])"
  by (simp add: addRow_draw_def Let_def newCalls_def attrs_def)

lemma header_lineGaps:
  "lineGaps (newCalls st (addHeader S t col st)) = [headerLineGap t (header col)]"
  by (simp add: addHeader_def Let_def newCalls_def lineGaps_def wrapOpts_def noWrapOpts_def)

lemma row_lineGaps:
  "lineGaps (newCalls st (addRow_draw S t row st)) = [rowLineGap t row]"
  by (simp add: addRow_draw_def Let_def newCalls_def lineGaps_def wrapOpts_def noWrapOpts_def)

lemma header_fontSizes:
  "fontSizes (newCalls st (addHeader S t col st)) =
     [if isEmptyText (cellText (header col))
      then js_or truthy_num (emptyFontSize (header col)) (headerEmptyFontSize t)
      else js_or truthy_num (fontSize (header col)) (headerFontSize t)]"
  by (simp add: addHeader_def Let_def newCalls_def fontSizes_def)

lemma row_fontSizes:
  "fontSizes (newCalls st (addRow_draw S t row st)) =
     [if isEmptyText (cellText row)
      then js_or truthy_num (emptyFontSize row) (cellEmptyFontSize t)
      else js_or truthy_num (fontSize row) (cellFontSize t)]"
  by (simp add: addRow_draw_def Let_def newCalls_def fontSizes_def)

lemma isEmptyText_iff: "isEmptyText x = (x = Undefined \<or> x = Null \<or> x = Val [])"
  by (cases x) auto

lemma columns_PDFTable: "columns (PDFTable cols opts) = cols"
  by (simp add: PDFTable_def Let_def)

lemma sample_columns: "length (columns sampleTable) = 2"
  by (simp add: sampleTable_def columns_PDFTable)

lemmas sample_defs =
  sampleTable_def PDFTable_def Let_def noOptions_def emptyCell_def textCell_def
  sampleColumn_def idColumn_def truthy_str_def truthy_num_def truthy_bool_def

lemma single_columns: "length (columns (PDFTable [sampleColumn ''ID'' []] noOptions)) = 1"
  by (simp add: columns_PDFTable)

section \<open>Column widths\<close>

text \<open>
  C2. The resolved width of a column is the full content width when the table has
  fewer than two columns, whatever the column's own width; otherwise it is the
  content width divided by the number of columns when the width is \<open>undefined\<close> or
  \<open>null\<close>, the content width times the width when the width is at least 0 and
  below 1 (so 0 gives 0), and the width itself when it is at least 1 (so 1 gives 1).
\<close>

theorem columnWidth_resolution:
  "(length (columns t) < 2 \<longrightarrow> calcColumnWidth t cw w = cw) \<and>
   (2 \<le> length (columns t) \<and> (w = Undefined \<or> w = Null) \<longrightarrow>
      calcColumnWidth t cw w = cw / real (length (columns t))) \<and>
   (2 \<le> length (columns t) \<and> 0 \<le> v \<and> v < 1 \<longrightarrow>
      calcColumnWidth t cw (Val v) = cw * v) \<and>
   (2 \<le> length (columns t) \<and> 1 \<le> v \<longrightarrow> calcColumnWidth t cw (Val v) = v) \<and>
   (2 \<le> length (columns t) \<longrightarrow>
      calcColumnWidth t cw (Val 0) = 0 \<and> calcColumnWidth t cw (Val 1) = 1)"
  by (auto simp: calcColumnWidth_def)

theorem columnWidth_resolution_witness:
  "calcColumnWidth (PDFTable [sampleColumn ''ID'' []] noOptions) 500 (Val 150) = 500 \<and>
   calcColumnWidth sampleTable 500 Undefined = 250 \<and>
   calcColumnWidth sampleTable 500 Null = 250 \<and>
   calcColumnWidth sampleTable 500 (Val 0.25) = 125 \<and>
   calcColumnWidth sampleTable 500 (Val 150) = 150 \<and>
   calcColumnWidth sampleTable 500 (Val 0) = 0 \<and>
   calcColumnWidth sampleTable 500 (Val 1) = 1"
  using columnWidth_resolution [of "PDFTable [sampleColumn ''ID'' []] noOptions" 500 "Val 150" 0]
    columnWidth_resolution [of sampleTable 500 Undefined "0.25"]
    columnWidth_resolution [of sampleTable 500 Null 150]
  by (simp add: sample_columns single_columns)

lemma frame_addRow_pageBreak:
  "columnWidth (addRow_pageBreak S t col st) = columnWidth st"
  "startingPosition (addRow_pageBreak S t col st) = startingPosition st"
  "startingPage (addRow_pageBreak S t col st) = startingPage st"
  "px (currentPosition (addRow_pageBreak S t col st)) = px (currentPosition st)"
  by (simp_all add: addRow_pageBreak_def Let_def frame_addHeader)

section \<open>Empty cells\<close>

text \<open>
  C3. A text is empty when it is \<open>undefined\<close>, \<open>null\<close> or the zero-length string.
  A header or row cell with an empty text is drawn with the resolved empty-variant
  fill colour, font size, italic flag and text; a cell with a non-empty text is drawn
  with the resolved non-empty colour, font size and italic flag, and its own text. For
  a row, the calls are those after the page check of \<open>_addRow\<close>.
\<close>

theorem empty_variant_attributes:
  "isEmptyText x = (x = Undefined \<or> x = Null \<or> x = Val []) \<and>
   attrs (newCalls st (addHeader S t col st)) =
    (if isEmptyText (cellText (header col))
     then [Fill (js_or truthy_str (emptyColor (header col)) (headerEmptyColor t)),
           Size (js_or truthy_num (emptyFontSize (header col)) (headerEmptyFontSize t))]
          @ (if js_or truthy_bool (emptyItalic (header col)) (headerEmptyItalic t)
             then [Italic] else [])
          @ [Drawn (CStr (js_or truthy_str (emptyText (header col)) (headerEmptyText t)))]
     else [Fill (js_or truthy_str (color (header col)) (headerColor t)),
           Size (js_or truthy_num (fontSize (header col)) (headerFontSize t))]
          @ (if js_or truthy_bool (italic (header col)) (headerItalic t)
             then [Italic] else [])
          @ [Drawn (CStr (textValue (cellText (header col))))]) \<and>
   attrs (newCalls (addRow_pageBreak S t col st) (addRow S t col row st)) =
    (if isEmptyText (cellText row)
     then [Fill (js_or truthy_str (emptyColor row) (cellEmptyColor t)),
           Size (js_or truthy_num (emptyFontSize row) (cellEmptyFontSize t))]
          @ (if js_or truthy_bool (emptyItalic row) (cellEmptyItalic t)
             then [Italic] else [])
          @ [Drawn (CStr (js_or truthy_str (emptyText row) (cellEmptyText t)))]
     else [Fill (js_or truthy_str (color row) (cellColor t)),
           Size (js_or truthy_num (fontSize row) (cellFontSize t))]
          @ (if js_or truthy_bool (italic row) (cellItalic t)
             then [Italic] else [])
          @ [Drawn (CStr (textValue (cellText row)))])"
  unfolding addRow_def
  using isEmptyText_iff [of x] header_attrs [of st S t col]
    row_attrs [of "addRow_pageBreak S t col st" S t row]
  by simp

theorem empty_variant_attributes_witness:
  "attrs (newCalls sampleState
       (addHeader sampleSurface sampleTable (sampleColumn [] []) sampleState)) =
     [Fill ''#FFFFFF'', Size 14, Drawn (CStr ''none'')] \<and>
   attrs (newCalls (addRow_pageBreak sampleSurface sampleTable idColumn sampleState)
       (addRow sampleSurface sampleTable idColumn (textCell ''Bob'') sampleState)) =
     [Fill ''#222'', Size 14, Drawn (CStr ''Bob'')]"
  using empty_variant_attributes [of Undefined sampleState
      sampleSurface sampleTable "sampleColumn [] []"]
    empty_variant_attributes [of Undefined sampleState
      sampleSurface sampleTable idColumn "textCell ''Bob''"]
  by (simp add: sample_defs)

section \<open>Line gaps\<close>

text \<open>
  C4, as amended. The line gap passed to the text call of a header is
  \<open>header.fontSize || this.headerFontSize\<close> times 1.2, and that of a row is
  \<open>row.fontSize || this.cellFontSize\<close> times 1.07: the font size resolved for a
  non-empty text, whether or not the text is empty. When the text is not empty this
  is the font size the cell is drawn with, times 1.2 or 1.07.
\<close>

theorem lineGap_from_nonempty_fontSize:
  "lineGaps (newCalls st (addHeader S t col st)) =
     [js_or truthy_num (fontSize (header col)) (headerFontSize t) * 1.2] \<and>
   lineGaps (newCalls (addRow_pageBreak S t col st) (addRow S t col row st)) =
     [js_or truthy_num (fontSize row) (cellFontSize t) * 1.07] \<and>
   (\<not> isEmptyText (cellText (header col)) \<longrightarrow>
      lineGaps (newCalls st (addHeader S t col st)) =
        map (\<lambda>n. n * 1.2) (fontSizes (newCalls st (addHeader S t col st)))) \<and>
   (\<not> isEmptyText (cellText row) \<longrightarrow>
      lineGaps (newCalls (addRow_pageBreak S t col st) (addRow S t col row st)) =
        map (\<lambda>n. n * 1.07)
          (fontSizes (newCalls (addRow_pageBreak S t col st) (addRow S t col row st))))"
  by (simp add: addRow_def header_lineGaps row_lineGaps header_fontSizes row_fontSizes
      headerLineGap_def rowLineGap_def)

theorem lineGap_from_nonempty_fontSize_witness:
  "\<not> isEmptyText (cellText (header idColumn)) \<and>
   \<not> isEmptyText (cellText (textCell ''Bob'')) \<and>
   lineGaps (newCalls sampleState
       (addHeader sampleSurface sampleTable idColumn sampleState)) = [14 * 1.2] \<and>
   lineGaps (newCalls sampleState
       (addHeader sampleSurface sampleTable idColumn sampleState)) =
     map (\<lambda>n. n * 1.2) (fontSizes (newCalls sampleState
       (addHeader sampleSurface sampleTable idColumn sampleState))) \<and>
   lineGaps (newCalls (addRow_pageBreak sampleSurface sampleTable idColumn sampleState)
       (addRow sampleSurface sampleTable idColumn (textCell ''Bob'') sampleState)) =
     [14 * 1.07] \<and>
   lineGaps (newCalls (addRow_pageBreak sampleSurface sampleTable idColumn sampleState)
       (addRow sampleSurface sampleTable idColumn (textCell ''Bob'') sampleState)) =
     map (\<lambda>n. n * 1.07) (fontSizes (newCalls
       (addRow_pageBreak sampleSurface sampleTable idColumn sampleState)
       (addRow sampleSurface sampleTable idColumn (textCell ''Bob'') sampleState)))"
proof -
  note T = lineGap_from_nonempty_fontSize
    [of sampleState sampleSurface sampleTable idColumn "textCell ''Bob''"]
  have h: "\<not> isEmptyText (cellText (header idColumn))"
    by (simp add: sample_defs)
  have r: "\<not> isEmptyText (cellText (textCell ''Bob''))"
    by (simp add: sample_defs)
  have vh: "js_or truthy_num (fontSize (header idColumn)) (headerFontSize sampleTable) = 14"
    by (simp add: sample_defs)
  have vr: "js_or truthy_num (fontSize (textCell ''Bob'')) (cellFontSize sampleTable) = 14"
    by (simp add: sample_defs)
  from T h r show ?thesis
    unfolding vh vr by blast
qed

text \<open>
  The header \<open>{ text: '', emptyFontSize: 20 }\<close> on a table with default options is
  drawn with font size 20 and a line gap of 14 times 1.2.
\<close>

theorem lineGap_empty_text_counterexample:
  "fontSizes (newCalls sampleState
       (addHeader sampleSurface sampleTable
          \<lparr>header = emptyCell\<lparr>cellText := Val [], emptyFontSize := Val 20\<rparr>,
           rows = [], width = Undefined\<rparr> sampleState)) = [20] \<and>
   lineGaps (newCalls sampleState
       (addHeader sampleSurface sampleTable
          \<lparr>header = emptyCell\<lparr>cellText := Val [], emptyFontSize := Val 20\<rparr>,
           rows = [], width = Undefined\<rparr> sampleState)) = [16.8] \<and>
   (16.8 :: real) \<noteq> 20 * 1.2"
  by (simp add: header_lineGaps header_fontSizes headerLineGap_def sample_defs)

section \<open>Falsy overrides\<close>

lemma js_or_absentIfFalsy [simp]: "js_or tr (absentIfFalsy tr x) d = js_or tr x d"
  by (cases x) auto

lemma js_or_js_absentIfFalsy [simp]: "js_or_js tr (absentIfFalsy tr x) b = js_or_js tr x b"
  by (cases x) auto

lemma withoutFalsy_fields [simp]:
  "align (withoutFalsy c) = absentIfFalsy truthy_str (align c)"
  "borderColor (withoutFalsy c) = absentIfFalsy truthy_str (borderColor c)"
  "borderStyle (withoutFalsy c) = absentIfFalsy truthy_str (borderStyle c)"
  "borderWidth (withoutFalsy c) = absentIfFalsy truthy_num (borderWidth c)"
  "color (withoutFalsy c) = absentIfFalsy truthy_str (color c)"
  "font (withoutFalsy c) = absentIfFalsy truthy_str (font c)"
  "fontSize (withoutFalsy c) = absentIfFalsy truthy_num (fontSize c)"
  "italic (withoutFalsy c) = absentIfFalsy truthy_bool (italic c)"
  "allowWrap (withoutFalsy c) = absentIfFalsy truthy_bool (allowWrap c)"
  "emptyColor (withoutFalsy c) = absentIfFalsy truthy_str (emptyColor c)"
  "emptyFontSize (withoutFalsy c) = absentIfFalsy truthy_num (emptyFontSize c)"
  "emptyItalic (withoutFalsy c) = absentIfFalsy truthy_bool (emptyItalic c)"
  "emptyText (withoutFalsy c) = absentIfFalsy truthy_str (emptyText c)"
  "cellText (withoutFalsy c) = cellText c"
  by (simp_all add: withoutFalsy_def)

lemma addHeader_withoutFalsy:
  "addHeader S t (col\<lparr>header := withoutFalsy (header col)\<rparr>) st = addHeader S t col st"
  by (simp add: addHeader_def headerLineGap_def Let_def)

lemma addRow_draw_withoutFalsy:
  "addRow_draw S t (withoutFalsy row) st = addRow_draw S t row st"
  by (simp add: addRow_draw_def rowLineGap_def Let_def)

lemma addRow_pageBreak_withoutFalsy:
  "addRow_pageBreak S t (col\<lparr>header := withoutFalsy (header col)\<rparr>) st =
     addRow_pageBreak S t col st"
  by (simp add: addRow_pageBreak_def addHeader_withoutFalsy Let_def)

lemma PDFTable_withoutFalsy:
  "PDFTable cols (optionsWithoutFalsy opts) = PDFTable cols opts"
  by (simp add: PDFTable_def optionsWithoutFalsy_def Let_def)

lemma js_or_falsy: "isFalsy tr x \<Longrightarrow> js_or tr x d = d"
  by (cases x) auto

lemma js_or_js_falsy: "isFalsy tr x \<Longrightarrow> js_or_js tr x b = b"
  by (cases x) auto

lemma header_settings:
  "[c. FillColor c <- newCalls st (addHeader S t col st)] =
     [if isEmptyText (cellText (header col))
      then js_or truthy_str (emptyColor (header col)) (headerEmptyColor t)
      else js_or truthy_str (color (header col)) (headerColor t)] \<and>
   [f. Font f <- newCalls st (addHeader S t col st)] =
     [js_or truthy_str (font (header col)) (headerFont t)] \<and>
   [n. FontSize n <- newCalls st (addHeader S t col st)] =
     [if isEmptyText (cellText (header col))
      then js_or truthy_num (emptyFontSize (header col)) (headerEmptyFontSize t)
      else js_or truthy_num (fontSize (header col)) (headerFontSize t)] \<and>
   [a. Transform a b c d e f <- newCalls st (addHeader S t col st)] =
     (if (if isEmptyText (cellText (header col))
          then js_or truthy_bool (emptyItalic (header col)) (headerEmptyItalic t)
          else js_or truthy_bool (italic (header col)) (headerItalic t))
      then [1] else []) \<and>
   [s. Text s p opts <- newCalls st (addHeader S t col st)] =
     [CStr (if isEmptyText (cellText (header col))
            then js_or truthy_str (emptyText (header col)) (headerEmptyText t)
            else textValue (cellText (header col)))] \<and>
   [t_align opts. Text s p opts <- newCalls st (addHeader S t col st)] =
     [Some (js_or truthy_str (align (header col)) (headerAlign t))] \<and>
   [t_lineGap opts. Text s p opts <- newCalls st (addHeader S t col st)] =
     [Some (js_or truthy_num (fontSize (header col)) (headerFontSize t) * 1.2)] \<and>
   [(t_height opts, t_ellipsis opts). Text s p opts <- newCalls st (addHeader S t col st)] =
     [if js_or truthy_bool (allowWrap (header col)) (headerAllowWrap t)
      then (None, None)
      else (Some (js_or truthy_num (fontSize (header col)) (headerFontSize t) * 1.2),
            Some True)] \<and>
   [w. LineWidth w <- newCalls st (addHeader S t col st)] =
     [js_or truthy_num (borderWidth (header col)) (headerBorderWidth t)] \<and>
   [c. StrokeColor c <- newCalls st (addHeader S t col st)] =
     [js_or truthy_str (borderColor (header col)) (headerBorderColor t)]"
  by (simp add: addHeader_def Let_def newCalls_def headerLineGap_def wrapOpts_def
      noWrapOpts_def)

lemma row_settings:
  "[c. FillColor c <- newCalls st (addRow_draw S t row st)] =
     [if isEmptyText (cellText row)
      then js_or truthy_str (emptyColor row) (cellEmptyColor t)
      else js_or truthy_str (color row) (cellColor t)] \<and>
   [f. Font f <- newCalls st (addRow_draw S t row st)] =
     [js_or truthy_str (font row) (cellFont t)] \<and>
   [n. FontSize n <- newCalls st (addRow_draw S t row st)] =
     [if isEmptyText (cellText row)
      then js_or truthy_num (emptyFontSize row) (cellEmptyFontSize t)
      else js_or truthy_num (fontSize row) (cellFontSize t)] \<and>
   [a. Transform a b c d e f <- newCalls st (addRow_draw S t row st)] =
     (if (if isEmptyText (cellText row)
          then js_or truthy_bool (emptyItalic row) (cellEmptyItalic t)
          else js_or truthy_bool (italic row) (cellItalic t))
      then [1] else []) \<and>
   [s. Text s p opts <- newCalls st (addRow_draw S t row st)] =
     [CStr (if isEmptyText (cellText row)
            then js_or truthy_str (emptyText row) (cellEmptyText t)
            else textValue (cellText row))] \<and>
   [t_align opts. Text s p opts <- newCalls st (addRow_draw S t row st)] =
     [Some (js_or truthy_str (align row) (cellAlign t))] \<and>
   [t_lineGap opts. Text s p opts <- newCalls st (addRow_draw S t row st)] =
     [Some (js_or truthy_num (fontSize row) (cellFontSize t) * 1.07)] \<and>
   [(t_height opts, t_ellipsis opts). Text s p opts <- newCalls st (addRow_draw S t row st)] =
     [if js_or truthy_bool (allowWrap row) (cellAllowWrap t)
      then (None, None)
      else (Some (js_or truthy_num (fontSize row) (cellFontSize t) * 1.07), Some True)] \<and>
   [w. LineWidth w <- newCalls st (addRow_draw S t row st)] =
     (if js_or_js truthy_str (borderStyle row) (cellBorderStyle t) = Val ''none'' then []
      else [js_or truthy_num (borderWidth row) (cellBorderWidth t)]) \<and>
   [c. StrokeColor c <- newCalls st (addRow_draw S t row st)] =
     (if js_or_js truthy_str (borderStyle row) (cellBorderStyle t) = Val ''none'' then []
      else [js_or truthy_str (borderColor row) (cellBorderColor t)]) \<and>
   filter (\<lambda>c. c = Stroke) (newCalls st (addRow_draw S t row st)) =
     (if js_or_js truthy_str (borderStyle row) (cellBorderStyle t) = Val ''none'' then [] else [Stroke])"
  by (simp add: addRow_draw_def Let_def newCalls_def rowLineGap_def wrapOpts_def
      noWrapOpts_def)

lemma rowCalls_draw:
  "rowCalls S t col row st =
     newCalls (addRow_pageBreak S t col st) (addRow_draw S t row (addRow_pageBreak S t col st))"
  by (simp add: rowCalls_def addRow_def)

lemma constructor_fallback:
  "(isFalsy truthy_str (o_cellAlign opts) \<longrightarrow>
      cellAlign (PDFTable cols opts) = ''left'') \<and>
   (isFalsy truthy_str (o_cellColor opts) \<longrightarrow>
      cellColor (PDFTable cols opts) = ''#222'') \<and>
   (isFalsy truthy_num (o_cellBorderWidth opts) \<longrightarrow>
      cellBorderWidth (PDFTable cols opts) = 1) \<and>
   (isFalsy truthy_str (o_cellFont opts) \<longrightarrow>
      cellFont (PDFTable cols opts) = ''Helvetica'') \<and>
   (isFalsy truthy_bool (o_cellItalic opts) \<longrightarrow>
      cellItalic (PDFTable cols opts) = False) \<and>
   (isFalsy truthy_num (o_cellFontSize opts) \<longrightarrow>
      cellFontSize (PDFTable cols opts) = 14) \<and>
   (isFalsy truthy_str (o_headerAlign opts) \<longrightarrow>
      headerAlign (PDFTable cols opts) = ''left'') \<and>
   (isFalsy truthy_str (o_headerColor opts) \<longrightarrow>
      headerColor (PDFTable cols opts) = ''#000'' \<and>
      headerBorderColor (PDFTable cols opts) = ''#000'' \<and>
      cellBorderColor (PDFTable cols opts) = ''#ccc'') \<and>
   (isFalsy truthy_str (o_headerBorderStyle opts) \<longrightarrow>
      headerBorderStyle (PDFTable cols opts) = ''bottom'') \<and>
   (isFalsy truthy_num (o_headerBorderWidth opts) \<longrightarrow>
      headerBorderWidth (PDFTable cols opts) = 1.5) \<and>
   (isFalsy truthy_str (o_headerFont opts) \<longrightarrow>
      headerFont (PDFTable cols opts) = ''Helvetica-Bold'') \<and>
   (isFalsy truthy_bool (o_headerItalic opts) \<longrightarrow>
      headerItalic (PDFTable cols opts) = False) \<and>
   (isFalsy truthy_num (o_headerFontSize opts) \<longrightarrow>
      headerFontSize (PDFTable cols opts) = 14) \<and>
   (isFalsy (\<lambda>m. True) (o_margins opts) \<longrightarrow>
      tmargins (PDFTable cols opts) = default_margins) \<and>
   (isFalsy truthy_str (o_cellEmptyColor opts) \<longrightarrow>
      cellEmptyColor (PDFTable cols opts) = ''#FFFFFF'') \<and>
   (isFalsy truthy_num (o_cellEmptyFontSize opts) \<longrightarrow>
      cellEmptyFontSize (PDFTable cols opts) = cellFontSize (PDFTable cols opts)) \<and>
   (isFalsy truthy_bool (o_cellEmptyItalic opts) \<longrightarrow>
      cellEmptyItalic (PDFTable cols opts) = cellItalic (PDFTable cols opts)) \<and>
   (isFalsy truthy_str (o_cellEmptyText opts) \<longrightarrow>
      cellEmptyText (PDFTable cols opts) = ''none'') \<and>
   (isFalsy truthy_str (o_headerEmptyColor opts) \<longrightarrow>
      headerEmptyColor (PDFTable cols opts) = ''#FFFFFF'') \<and>
   (isFalsy truthy_num (o_headerEmptyFontSize opts) \<longrightarrow>
      headerEmptyFontSize (PDFTable cols opts) = headerFontSize (PDFTable cols opts)) \<and>
   (isFalsy truthy_bool (o_headerEmptyItalic opts) \<longrightarrow>
      headerEmptyItalic (PDFTable cols opts) = headerItalic (PDFTable cols opts)) \<and>
   (isFalsy truthy_str (o_headerEmptyText opts) \<longrightarrow>
      headerEmptyText (PDFTable cols opts) = ''none'') \<and>
   (isFalsy truthy_bool (o_headerAllowWrap opts) \<longrightarrow>
      headerAllowWrap (PDFTable cols opts) = False) \<and>
   (isFalsy truthy_bool (o_cellAllowWrap opts) \<longrightarrow>
      cellAllowWrap (PDFTable cols opts) = False)"
  by (simp add: PDFTable_def Let_def js_or_falsy)

lemma constructor_override:
  "(o_cellAlign opts = Val vs \<and> truthy_str vs \<longrightarrow>
      cellAlign (PDFTable cols opts) = vs) \<and>
   (o_cellColor opts = Val vs \<and> truthy_str vs \<longrightarrow>
      cellColor (PDFTable cols opts) = vs) \<and>
   (o_cellBorderWidth opts = Val vn \<and> truthy_num vn \<longrightarrow>
      cellBorderWidth (PDFTable cols opts) = vn) \<and>
   (o_cellFont opts = Val vs \<and> truthy_str vs \<longrightarrow>
      cellFont (PDFTable cols opts) = vs) \<and>
   (o_cellItalic opts = Val True \<longrightarrow>
      cellItalic (PDFTable cols opts) = True) \<and>
   (o_cellFontSize opts = Val vn \<and> truthy_num vn \<longrightarrow>
      cellFontSize (PDFTable cols opts) = vn) \<and>
   (o_headerAlign opts = Val vs \<and> truthy_str vs \<longrightarrow>
      headerAlign (PDFTable cols opts) = vs) \<and>
   (o_headerColor opts = Val vs \<and> truthy_str vs \<longrightarrow>
      headerColor (PDFTable cols opts) = vs \<and>
      headerBorderColor (PDFTable cols opts) = vs \<and>
      cellBorderColor (PDFTable cols opts) = vs) \<and>
   (o_headerBorderStyle opts = Val vs \<and> truthy_str vs \<longrightarrow>
      headerBorderStyle (PDFTable cols opts) = vs) \<and>
   (o_headerBorderWidth opts = Val vn \<and> truthy_num vn \<longrightarrow>
      headerBorderWidth (PDFTable cols opts) = vn) \<and>
   (o_headerFont opts = Val vs \<and> truthy_str vs \<longrightarrow>
      headerFont (PDFTable cols opts) = vs) \<and>
   (o_headerItalic opts = Val True \<longrightarrow>
      headerItalic (PDFTable cols opts) = True) \<and>
   (o_headerFontSize opts = Val vn \<and> truthy_num vn \<longrightarrow>
      headerFontSize (PDFTable cols opts) = vn) \<and>
   (o_margins opts = Val vm \<longrightarrow>
      tmargins (PDFTable cols opts) = vm) \<and>
   (o_cellEmptyColor opts = Val vs \<and> truthy_str vs \<longrightarrow>
      cellEmptyColor (PDFTable cols opts) = vs) \<and>
   (o_cellEmptyFontSize opts = Val vn \<and> truthy_num vn \<longrightarrow>
      cellEmptyFontSize (PDFTable cols opts) = vn) \<and>
   (o_cellEmptyItalic opts = Val True \<longrightarrow>
      cellEmptyItalic (PDFTable cols opts) = True) \<and>
   (o_cellEmptyText opts = Val vs \<and> truthy_str vs \<longrightarrow>
      cellEmptyText (PDFTable cols opts) = vs) \<and>
   (o_headerEmptyColor opts = Val vs \<and> truthy_str vs \<longrightarrow>
      headerEmptyColor (PDFTable cols opts) = vs) \<and>
   (o_headerEmptyFontSize opts = Val vn \<and> truthy_num vn \<longrightarrow>
      headerEmptyFontSize (PDFTable cols opts) = vn) \<and>
   (o_headerEmptyItalic opts = Val True \<longrightarrow>
      headerEmptyItalic (PDFTable cols opts) = True) \<and>
   (o_headerEmptyText opts = Val vs \<and> truthy_str vs \<longrightarrow>
      headerEmptyText (PDFTable cols opts) = vs) \<and>
   (o_headerAllowWrap opts = Val True \<longrightarrow>
      headerAllowWrap (PDFTable cols opts) = True) \<and>
   (o_cellAllowWrap opts = Val True \<longrightarrow>
      cellAllowWrap (PDFTable cols opts) = True)"
  by (simp add: PDFTable_def Let_def truthy_bool_def)

text \<open>
  C5. A style property of a header or of a row, or a style option of the
  constructor, whose value is falsy (the number 0, \<open>false\<close>, the empty string,
  \<open>null\<close>, or absent) is resolved as if it were absent and takes the default of
  the next tier. The header, the row and the table are the same as with every falsy
  style property removed. For each style property of a header and of a row, when it
  is falsy the call that carries it is made with the table's value: the alignment,
  the font, the line gap and the clipping of the text call, the border colour and
  width, and, according to whether the text is empty, the colour, font size, shear
  and text of the non-empty or of the empty variant; a row with a falsy
  \<open>borderStyle\<close> is stroked unless the table's \<open>cellBorderStyle\<close> is \<open>'none'\<close>. For
  each option of the constructor, when it is falsy the table holds the hard-coded
  default, or for the empty-variant font size and italic flag the table's font size
  and italic flag. Only falsy values fall back: a truthy value of the same property
  or option is the one used.
\<close>

theorem falsy_override_falls_back:
  "addHeader S t (col\<lparr>header := withoutFalsy (header col)\<rparr>) st = addHeader S t col st \<and>
   addRow S t (col\<lparr>header := withoutFalsy (header col)\<rparr>) (withoutFalsy row) st =
     addRow S t col row st \<and>
   PDFTable cols (optionsWithoutFalsy opts) = PDFTable cols opts \<and>
   (isFalsy truthy_str (align (header col)) \<longrightarrow>
      [t_align opts. Text s p opts <- newCalls st (addHeader S t col st)] = [Some (headerAlign t)]) \<and>
   (isFalsy truthy_str (borderColor (header col)) \<longrightarrow>
      [c. StrokeColor c <- newCalls st (addHeader S t col st)] = [headerBorderColor t]) \<and>
   (isFalsy truthy_num (borderWidth (header col)) \<longrightarrow>
      [w. LineWidth w <- newCalls st (addHeader S t col st)] = [headerBorderWidth t]) \<and>
   (isFalsy truthy_str (font (header col)) \<longrightarrow>
      [f. Font f <- newCalls st (addHeader S t col st)] = [headerFont t]) \<and>
   (isFalsy truthy_num (fontSize (header col)) \<longrightarrow>
      [t_lineGap opts. Text s p opts <- newCalls st (addHeader S t col st)] = [Some (headerFontSize t * 1.2)]) \<and>
   (isFalsy truthy_bool (allowWrap (header col)) \<longrightarrow>
      [(t_height opts, t_ellipsis opts). Text s p opts <- newCalls st (addHeader S t col st)] = 
        [if headerAllowWrap t then (None, None)
         else (Some (js_or truthy_num (fontSize (header col)) (headerFontSize t) * 1.2), Some True)]) \<and>
   (isFalsy truthy_str (color (header col)) \<and> \<not> isEmptyText (cellText (header col)) \<longrightarrow>
      [c. FillColor c <- newCalls st (addHeader S t col st)] = [headerColor t]) \<and>
   (isFalsy truthy_num (fontSize (header col)) \<and> \<not> isEmptyText (cellText (header col)) \<longrightarrow>
      [n. FontSize n <- newCalls st (addHeader S t col st)] = [headerFontSize t]) \<and>
   (isFalsy truthy_bool (italic (header col)) \<and> \<not> isEmptyText (cellText (header col)) \<longrightarrow>
      [a. Transform a b c d e f <- newCalls st (addHeader S t col st)] = (if headerItalic t then [1] else [])) \<and>
   (isFalsy truthy_str (emptyColor (header col)) \<and> isEmptyText (cellText (header col)) \<longrightarrow>
      [c. FillColor c <- newCalls st (addHeader S t col st)] = [headerEmptyColor t]) \<and>
   (isFalsy truthy_num (emptyFontSize (header col)) \<and> isEmptyText (cellText (header col)) \<longrightarrow>
      [n. FontSize n <- newCalls st (addHeader S t col st)] = [headerEmptyFontSize t]) \<and>
   (isFalsy truthy_bool (emptyItalic (header col)) \<and> isEmptyText (cellText (header col)) \<longrightarrow>
      [a. Transform a b c d e f <- newCalls st (addHeader S t col st)] = (if headerEmptyItalic t then [1] else [])) \<and>
   (isFalsy truthy_str (emptyText (header col)) \<and> isEmptyText (cellText (header col)) \<longrightarrow>
      [s. Text s p opts <- newCalls st (addHeader S t col st)] = [CStr (headerEmptyText t)]) \<and>
   (isFalsy truthy_str (align (row)) \<longrightarrow>
      [t_align opts. Text s p opts <- rowCalls S t col row st] = [Some (cellAlign t)]) \<and>
   (isFalsy truthy_str (borderColor (row)) \<and>
    js_or_js truthy_str (borderStyle row) (cellBorderStyle t) \<noteq> Val ''none'' \<longrightarrow>
      [c. StrokeColor c <- rowCalls S t col row st] = [cellBorderColor t]) \<and>
   (isFalsy truthy_num (borderWidth (row)) \<and>
    js_or_js truthy_str (borderStyle row) (cellBorderStyle t) \<noteq> Val ''none'' \<longrightarrow>
      [w. LineWidth w <- rowCalls S t col row st] = [cellBorderWidth t]) \<and>
   (isFalsy truthy_str (font (row)) \<longrightarrow>
      [f. Font f <- rowCalls S t col row st] = [cellFont t]) \<and>
   (isFalsy truthy_num (fontSize (row)) \<longrightarrow>
      [t_lineGap opts. Text s p opts <- rowCalls S t col row st] = [Some (cellFontSize t * 1.07)]) \<and>
   (isFalsy truthy_bool (allowWrap (row)) \<longrightarrow>
      [(t_height opts, t_ellipsis opts). Text s p opts <- rowCalls S t col row st] = 
        [if cellAllowWrap t then (None, None)
         else (Some (js_or truthy_num (fontSize (row)) (cellFontSize t) * 1.07), Some True)]) \<and>
   (isFalsy truthy_str (color (row)) \<and> \<not> isEmptyText (cellText (row)) \<longrightarrow>
      [c. FillColor c <- rowCalls S t col row st] = [cellColor t]) \<and>
   (isFalsy truthy_num (fontSize (row)) \<and> \<not> isEmptyText (cellText (row)) \<longrightarrow>
      [n. FontSize n <- rowCalls S t col row st] = [cellFontSize t]) \<and>
   (isFalsy truthy_bool (italic (row)) \<and> \<not> isEmptyText (cellText (row)) \<longrightarrow>
      [a. Transform a b c d e f <- rowCalls S t col row st] = (if cellItalic t then [1] else [])) \<and>
   (isFalsy truthy_str (emptyColor (row)) \<and> isEmptyText (cellText (row)) \<longrightarrow>
      [c. FillColor c <- rowCalls S t col row st] = [cellEmptyColor t]) \<and>
   (isFalsy truthy_num (emptyFontSize (row)) \<and> isEmptyText (cellText (row)) \<longrightarrow>
      [n. FontSize n <- rowCalls S t col row st] = [cellEmptyFontSize t]) \<and>
   (isFalsy truthy_bool (emptyItalic (row)) \<and> isEmptyText (cellText (row)) \<longrightarrow>
      [a. Transform a b c d e f <- rowCalls S t col row st] = (if cellEmptyItalic t then [1] else [])) \<and>
   (isFalsy truthy_str (emptyText (row)) \<and> isEmptyText (cellText (row)) \<longrightarrow>
      [s. Text s p opts <- rowCalls S t col row st] = [CStr (cellEmptyText t)]) \<and>
   (isFalsy truthy_str (borderStyle row) \<longrightarrow>
      filter (\<lambda>c. c = Stroke) (rowCalls S t col row st) =
        (if cellBorderStyle t = Val ''none'' then [] else [Stroke])) \<and>
   (isFalsy truthy_str (o_cellAlign opts) \<longrightarrow>
      cellAlign (PDFTable cols opts) = ''left'') \<and>
   (isFalsy truthy_str (o_cellColor opts) \<longrightarrow>
      cellColor (PDFTable cols opts) = ''#222'') \<and>
   (isFalsy truthy_num (o_cellBorderWidth opts) \<longrightarrow>
      cellBorderWidth (PDFTable cols opts) = 1) \<and>
   (isFalsy truthy_str (o_cellFont opts) \<longrightarrow>
      cellFont (PDFTable cols opts) = ''Helvetica'') \<and>
   (isFalsy truthy_bool (o_cellItalic opts) \<longrightarrow>
      cellItalic (PDFTable cols opts) = False) \<and>
   (isFalsy truthy_num (o_cellFontSize opts) \<longrightarrow>
      cellFontSize (PDFTable cols opts) = 14) \<and>
   (isFalsy truthy_str (o_headerAlign opts) \<longrightarrow>
      headerAlign (PDFTable cols opts) = ''left'') \<and>
   (isFalsy truthy_str (o_headerColor opts) \<longrightarrow>
      headerColor (PDFTable cols opts) = ''#000'' \<and>
      headerBorderColor (PDFTable cols opts) = ''#000'' \<and>
      cellBorderColor (PDFTable cols opts) = ''#ccc'') \<and>
   (isFalsy truthy_str (o_headerBorderStyle opts) \<longrightarrow>
      headerBorderStyle (PDFTable cols opts) = ''bottom'') \<and>
   (isFalsy truthy_num (o_headerBorderWidth opts) \<longrightarrow>
      headerBorderWidth (PDFTable cols opts) = 1.5) \<and>
   (isFalsy truthy_str (o_headerFont opts) \<longrightarrow>
      headerFont (PDFTable cols opts) = ''Helvetica-Bold'') \<and>
   (isFalsy truthy_bool (o_headerItalic opts) \<longrightarrow>
      headerItalic (PDFTable cols opts) = False) \<and>
   (isFalsy truthy_num (o_headerFontSize opts) \<longrightarrow>
      headerFontSize (PDFTable cols opts) = 14) \<and>
   (isFalsy (\<lambda>m. True) (o_margins opts) \<longrightarrow>
      tmargins (PDFTable cols opts) = default_margins) \<and>
   (isFalsy truthy_str (o_cellEmptyColor opts) \<longrightarrow>
      cellEmptyColor (PDFTable cols opts) = ''#FFFFFF'') \<and>
   (isFalsy truthy_num (o_cellEmptyFontSize opts) \<longrightarrow>
      cellEmptyFontSize (PDFTable cols opts) = cellFontSize (PDFTable cols opts)) \<and>
   (isFalsy truthy_bool (o_cellEmptyItalic opts) \<longrightarrow>
      cellEmptyItalic (PDFTable cols opts) = cellItalic (PDFTable cols opts)) \<and>
   (isFalsy truthy_str (o_cellEmptyText opts) \<longrightarrow>
      cellEmptyText (PDFTable cols opts) = ''none'') \<and>
   (isFalsy truthy_str (o_headerEmptyColor opts) \<longrightarrow>
      headerEmptyColor (PDFTable cols opts) = ''#FFFFFF'') \<and>
   (isFalsy truthy_num (o_headerEmptyFontSize opts) \<longrightarrow>
      headerEmptyFontSize (PDFTable cols opts) = headerFontSize (PDFTable cols opts)) \<and>
   (isFalsy truthy_bool (o_headerEmptyItalic opts) \<longrightarrow>
      headerEmptyItalic (PDFTable cols opts) = headerItalic (PDFTable cols opts)) \<and>
   (isFalsy truthy_str (o_headerEmptyText opts) \<longrightarrow>
      headerEmptyText (PDFTable cols opts) = ''none'') \<and>
   (isFalsy truthy_bool (o_headerAllowWrap opts) \<longrightarrow>
      headerAllowWrap (PDFTable cols opts) = False) \<and>
   (isFalsy truthy_bool (o_cellAllowWrap opts) \<longrightarrow>
      cellAllowWrap (PDFTable cols opts) = False) \<and>
   (align (header col) = Val vs \<and> truthy_str vs \<longrightarrow>
      [t_align opts. Text s p opts <- newCalls st (addHeader S t col st)] = [Some vs]) \<and>
   (borderColor (header col) = Val vs \<and> truthy_str vs \<longrightarrow>
      [c. StrokeColor c <- newCalls st (addHeader S t col st)] = [vs]) \<and>
   (borderWidth (header col) = Val vn \<and> truthy_num vn \<longrightarrow>
      [w. LineWidth w <- newCalls st (addHeader S t col st)] = [vn]) \<and>
   (font (header col) = Val vs \<and> truthy_str vs \<longrightarrow>
      [f. Font f <- newCalls st (addHeader S t col st)] = [vs]) \<and>
   (fontSize (header col) = Val vn \<and> truthy_num vn \<longrightarrow>
      [t_lineGap opts. Text s p opts <- newCalls st (addHeader S t col st)] = [Some (vn * 1.2)]) \<and>
   (allowWrap (header col) = Val True \<longrightarrow>
      [(t_height opts, t_ellipsis opts). Text s p opts <- newCalls st (addHeader S t col st)] = [(None, None)]) \<and>
   (color (header col) = Val vs \<and> truthy_str vs \<and> \<not> isEmptyText (cellText (header col)) \<longrightarrow>
      [c. FillColor c <- newCalls st (addHeader S t col st)] = [vs]) \<and>
   (fontSize (header col) = Val vn \<and> truthy_num vn \<and> \<not> isEmptyText (cellText (header col)) \<longrightarrow>
      [n. FontSize n <- newCalls st (addHeader S t col st)] = [vn]) \<and>
   (italic (header col) = Val True \<and> \<not> isEmptyText (cellText (header col)) \<longrightarrow>
      [a. Transform a b c d e f <- newCalls st (addHeader S t col st)] = [1]) \<and>
   (emptyColor (header col) = Val vs \<and> truthy_str vs \<and> isEmptyText (cellText (header col)) \<longrightarrow>
      [c. FillColor c <- newCalls st (addHeader S t col st)] = [vs]) \<and>
   (emptyFontSize (header col) = Val vn \<and> truthy_num vn \<and> isEmptyText (cellText (header col)) \<longrightarrow>
      [n. FontSize n <- newCalls st (addHeader S t col st)] = [vn]) \<and>
   (emptyItalic (header col) = Val True \<and> isEmptyText (cellText (header col)) \<longrightarrow>
      [a. Transform a b c d e f <- newCalls st (addHeader S t col st)] = [1]) \<and>
   (emptyText (header col) = Val vs \<and> truthy_str vs \<and> isEmptyText (cellText (header col)) \<longrightarrow>
      [s. Text s p opts <- newCalls st (addHeader S t col st)] = [CStr vs]) \<and>
   (align (row) = Val vs \<and> truthy_str vs \<longrightarrow>
      [t_align opts. Text s p opts <- rowCalls S t col row st] = [Some vs]) \<and>
   (borderColor (row) = Val vs \<and> truthy_str vs \<and>
    js_or_js truthy_str (borderStyle row) (cellBorderStyle t) \<noteq> Val ''none'' \<longrightarrow>
      [c. StrokeColor c <- rowCalls S t col row st] = [vs]) \<and>
   (borderWidth (row) = Val vn \<and> truthy_num vn \<and>
    js_or_js truthy_str (borderStyle row) (cellBorderStyle t) \<noteq> Val ''none'' \<longrightarrow>
      [w. LineWidth w <- rowCalls S t col row st] = [vn]) \<and>
   (font (row) = Val vs \<and> truthy_str vs \<longrightarrow>
      [f. Font f <- rowCalls S t col row st] = [vs]) \<and>
   (fontSize (row) = Val vn \<and> truthy_num vn \<longrightarrow>
      [t_lineGap opts. Text s p opts <- rowCalls S t col row st] = [Some (vn * 1.07)]) \<and>
   (allowWrap (row) = Val True \<longrightarrow>
      [(t_height opts, t_ellipsis opts). Text s p opts <- rowCalls S t col row st] = [(None, None)]) \<and>
   (color (row) = Val vs \<and> truthy_str vs \<and> \<not> isEmptyText (cellText (row)) \<longrightarrow>
      [c. FillColor c <- rowCalls S t col row st] = [vs]) \<and>
   (fontSize (row) = Val vn \<and> truthy_num vn \<and> \<not> isEmptyText (cellText (row)) \<longrightarrow>
      [n. FontSize n <- rowCalls S t col row st] = [vn]) \<and>
   (italic (row) = Val True \<and> \<not> isEmptyText (cellText (row)) \<longrightarrow>
      [a. Transform a b c d e f <- rowCalls S t col row st] = [1]) \<and>
   (emptyColor (row) = Val vs \<and> truthy_str vs \<and> isEmptyText (cellText (row)) \<longrightarrow>
      [c. FillColor c <- rowCalls S t col row st] = [vs]) \<and>
   (emptyFontSize (row) = Val vn \<and> truthy_num vn \<and> isEmptyText (cellText (row)) \<longrightarrow>
      [n. FontSize n <- rowCalls S t col row st] = [vn]) \<and>
   (emptyItalic (row) = Val True \<and> isEmptyText (cellText (row)) \<longrightarrow>
      [a. Transform a b c d e f <- rowCalls S t col row st] = [1]) \<and>
   (emptyText (row) = Val vs \<and> truthy_str vs \<and> isEmptyText (cellText (row)) \<longrightarrow>
      [s. Text s p opts <- rowCalls S t col row st] = [CStr vs]) \<and>
   (borderStyle row = Val vs \<and> truthy_str vs \<longrightarrow>
      filter (\<lambda>c. c = Stroke) (rowCalls S t col row st) =
        (if vs = ''none'' then [] else [Stroke])) \<and>
   (o_cellAlign opts = Val vs \<and> truthy_str vs \<longrightarrow>
      cellAlign (PDFTable cols opts) = vs) \<and>
   (o_cellColor opts = Val vs \<and> truthy_str vs \<longrightarrow>
      cellColor (PDFTable cols opts) = vs) \<and>
   (o_cellBorderWidth opts = Val vn \<and> truthy_num vn \<longrightarrow>
      cellBorderWidth (PDFTable cols opts) = vn) \<and>
   (o_cellFont opts = Val vs \<and> truthy_str vs \<longrightarrow>
      cellFont (PDFTable cols opts) = vs) \<and>
   (o_cellItalic opts = Val True \<longrightarrow>
      cellItalic (PDFTable cols opts) = True) \<and>
   (o_cellFontSize opts = Val vn \<and> truthy_num vn \<longrightarrow>
      cellFontSize (PDFTable cols opts) = vn) \<and>
   (o_headerAlign opts = Val vs \<and> truthy_str vs \<longrightarrow>
      headerAlign (PDFTable cols opts) = vs) \<and>
   (o_headerColor opts = Val vs \<and> truthy_str vs \<longrightarrow>
      headerColor (PDFTable cols opts) = vs \<and>
      headerBorderColor (PDFTable cols opts) = vs \<and>
      cellBorderColor (PDFTable cols opts) = vs) \<and>
   (o_headerBorderStyle opts = Val vs \<and> truthy_str vs \<longrightarrow>
      headerBorderStyle (PDFTable cols opts) = vs) \<and>
   (o_headerBorderWidth opts = Val vn \<and> truthy_num vn \<longrightarrow>
      headerBorderWidth (PDFTable cols opts) = vn) \<and>
   (o_headerFont opts = Val vs \<and> truthy_str vs \<longrightarrow>
      headerFont (PDFTable cols opts) = vs) \<and>
   (o_headerItalic opts = Val True \<longrightarrow>
      headerItalic (PDFTable cols opts) = True) \<and>
   (o_headerFontSize opts = Val vn \<and> truthy_num vn \<longrightarrow>
      headerFontSize (PDFTable cols opts) = vn) \<and>
   (o_margins opts = Val vm \<longrightarrow>
      tmargins (PDFTable cols opts) = vm) \<and>
   (o_cellEmptyColor opts = Val vs \<and> truthy_str vs \<longrightarrow>
      cellEmptyColor (PDFTable cols opts) = vs) \<and>
   (o_cellEmptyFontSize opts = Val vn \<and> truthy_num vn \<longrightarrow>
      cellEmptyFontSize (PDFTable cols opts) = vn) \<and>
   (o_cellEmptyItalic opts = Val True \<longrightarrow>
      cellEmptyItalic (PDFTable cols opts) = True) \<and>
   (o_cellEmptyText opts = Val vs \<and> truthy_str vs \<longrightarrow>
      cellEmptyText (PDFTable cols opts) = vs) \<and>
   (o_headerEmptyColor opts = Val vs \<and> truthy_str vs \<longrightarrow>
      headerEmptyColor (PDFTable cols opts) = vs) \<and>
   (o_headerEmptyFontSize opts = Val vn \<and> truthy_num vn \<longrightarrow>
      headerEmptyFontSize (PDFTable cols opts) = vn) \<and>
   (o_headerEmptyItalic opts = Val True \<longrightarrow>
      headerEmptyItalic (PDFTable cols opts) = True) \<and>
   (o_headerEmptyText opts = Val vs \<and> truthy_str vs \<longrightarrow>
      headerEmptyText (PDFTable cols opts) = vs) \<and>
   (o_headerAllowWrap opts = Val True \<longrightarrow>
      headerAllowWrap (PDFTable cols opts) = True) \<and>
   (o_cellAllowWrap opts = Val True \<longrightarrow>
      cellAllowWrap (PDFTable cols opts) = True)"
  by (simp add: header_settings rowCalls_draw row_settings js_or_falsy js_or_js_falsy
      addRow_def addHeader_withoutFalsy addRow_draw_withoutFalsy
      addRow_pageBreak_withoutFalsy PDFTable_withoutFalsy constructor_fallback
      constructor_override truthy_bool_def)

text \<open>
  A header and a row whose style properties are all set to \<open>0\<close>, \<open>false\<close> or
  \<open>''\<close>, on a table built with options of its own, are drawn with that table's
  values, with a text and with an empty text, while a header and a row with
  \<open>fontSize: 30\<close> and \<open>color: '#abc'\<close> are drawn with these; a table built from
  options that are all falsy holds the hard-coded defaults, and the table built with
  options of its own holds those.
\<close>

theorem falsy_override_falls_back_witness:
  "isFalsy truthy_num (fontSize (falsyCell (Val ''ID''))) \<and>
   isFalsy truthy_bool (italic (falsyCell (Val ''ID''))) \<and>
   isFalsy truthy_str (color (falsyCell (Val ''ID''))) \<and>
   \<not> isEmptyText (cellText (falsyCell (Val ''ID''))) \<and>
   isEmptyText (cellText (falsyCell (Val []))) \<and>
   isFalsy truthy_num (o_cellFontSize falsyOptions) \<and>
   o_headerFontSize styledOptions = Val 20 \<and> truthy_num 20 \<and>
   [t_align opts. Text s p opts <- newCalls sampleState
        (addHeader sampleSurface styledTable
           \<lparr>header = falsyCell (Val ''ID''), rows = [], width = Undefined\<rparr> sampleState)] =
     [Some ''center''] \<and>
   [c. StrokeColor c <- newCalls sampleState
        (addHeader sampleSurface styledTable
           \<lparr>header = falsyCell (Val ''ID''), rows = [], width = Undefined\<rparr> sampleState)] =
     [''#111''] \<and>
   [w. LineWidth w <- newCalls sampleState
        (addHeader sampleSurface styledTable
           \<lparr>header = falsyCell (Val ''ID''), rows = [], width = Undefined\<rparr> sampleState)] =
     [3] \<and>
   [f. Font f <- newCalls sampleState
        (addHeader sampleSurface styledTable
           \<lparr>header = falsyCell (Val ''ID''), rows = [], width = Undefined\<rparr> sampleState)] =
     [''Courier-Bold''] \<and>
   [t_lineGap opts. Text s p opts <- newCalls sampleState
        (addHeader sampleSurface styledTable
           \<lparr>header = falsyCell (Val ''ID''), rows = [], width = Undefined\<rparr> sampleState)] =
     [Some 24] \<and>
   [(t_height opts, t_ellipsis opts). Text s p opts <- newCalls sampleState
        (addHeader sampleSurface styledTable
           \<lparr>header = falsyCell (Val ''ID''), rows = [], width = Undefined\<rparr> sampleState)] =
     [(None, None)] \<and>
   [c. FillColor c <- newCalls sampleState
        (addHeader sampleSurface styledTable
           \<lparr>header = falsyCell (Val ''ID''), rows = [], width = Undefined\<rparr> sampleState)] =
     [''#111''] \<and>
   [n. FontSize n <- newCalls sampleState
        (addHeader sampleSurface styledTable
           \<lparr>header = falsyCell (Val ''ID''), rows = [], width = Undefined\<rparr> sampleState)] =
     [20] \<and>
   [a. Transform a b c d e f <- newCalls sampleState
        (addHeader sampleSurface styledTable
           \<lparr>header = falsyCell (Val ''ID''), rows = [], width = Undefined\<rparr> sampleState)] =
     [1] \<and>
   [c. FillColor c <- newCalls sampleState
        (addHeader sampleSurface styledTable
           \<lparr>header = falsyCell (Val []), rows = [], width = Undefined\<rparr> sampleState)] =
     [''#FFFFFF''] \<and>
   [n. FontSize n <- newCalls sampleState
        (addHeader sampleSurface styledTable
           \<lparr>header = falsyCell (Val []), rows = [], width = Undefined\<rparr> sampleState)] =
     [20] \<and>
   [a. Transform a b c d e f <- newCalls sampleState
        (addHeader sampleSurface styledTable
           \<lparr>header = falsyCell (Val []), rows = [], width = Undefined\<rparr> sampleState)] =
     [1] \<and>
   [s. Text s p opts <- newCalls sampleState
        (addHeader sampleSurface styledTable
           \<lparr>header = falsyCell (Val []), rows = [], width = Undefined\<rparr> sampleState)] =
     [CStr ''-''] \<and>
   [c. FillColor c <- newCalls sampleState
        (addHeader sampleSurface styledTable
           \<lparr>header = emptyCell\<lparr>cellText := Val ''ID'', fontSize := Val 30,
                                color := Val ''#abc''\<rparr>,
            rows = [], width = Undefined\<rparr> sampleState)] =
     [''#abc''] \<and>
   [n. FontSize n <- newCalls sampleState
        (addHeader sampleSurface styledTable
           \<lparr>header = emptyCell\<lparr>cellText := Val ''ID'', fontSize := Val 30,
                                color := Val ''#abc''\<rparr>,
            rows = [], width = Undefined\<rparr> sampleState)] =
     [30] \<and>
   [t_lineGap opts. Text s p opts <- newCalls sampleState
        (addHeader sampleSurface styledTable
           \<lparr>header = emptyCell\<lparr>cellText := Val ''ID'', fontSize := Val 30,
                                color := Val ''#abc''\<rparr>,
            rows = [], width = Undefined\<rparr> sampleState)] =
     [Some 36] \<and>
   [t_align opts. Text s p opts <- rowCalls sampleSurface styledTable
        \<lparr>header = falsyCell (Val ''ID''), rows = [], width = Undefined\<rparr>
        (falsyCell (Val ''Bob'')) sampleState] =
     [Some ''right''] \<and>
   [c. StrokeColor c <- rowCalls sampleSurface styledTable
        \<lparr>header = falsyCell (Val ''ID''), rows = [], width = Undefined\<rparr>
        (falsyCell (Val ''Bob'')) sampleState] =
     [''#111''] \<and>
   [w. LineWidth w <- rowCalls sampleSurface styledTable
        \<lparr>header = falsyCell (Val ''ID''), rows = [], width = Undefined\<rparr>
        (falsyCell (Val ''Bob'')) sampleState] =
     [2] \<and>
   [f. Font f <- rowCalls sampleSurface styledTable
        \<lparr>header = falsyCell (Val ''ID''), rows = [], width = Undefined\<rparr>
        (falsyCell (Val ''Bob'')) sampleState] =
     [''Courier''] \<and>
   [t_lineGap opts. Text s p opts <- rowCalls sampleSurface styledTable
        \<lparr>header = falsyCell (Val ''ID''), rows = [], width = Undefined\<rparr>
        (falsyCell (Val ''Bob'')) sampleState] =
     [Some 10.7] \<and>
   [(t_height opts, t_ellipsis opts). Text s p opts <- rowCalls sampleSurface styledTable
        \<lparr>header = falsyCell (Val ''ID''), rows = [], width = Undefined\<rparr>
        (falsyCell (Val ''Bob'')) sampleState] =
     [(None, None)] \<and>
   [c. FillColor c <- rowCalls sampleSurface styledTable
        \<lparr>header = falsyCell (Val ''ID''), rows = [], width = Undefined\<rparr>
        (falsyCell (Val ''Bob'')) sampleState] =
     [''#333''] \<and>
   [n. FontSize n <- rowCalls sampleSurface styledTable
        \<lparr>header = falsyCell (Val ''ID''), rows = [], width = Undefined\<rparr>
        (falsyCell (Val ''Bob'')) sampleState] =
     [10] \<and>
   [a. Transform a b c d e f <- rowCalls sampleSurface styledTable
        \<lparr>header = falsyCell (Val ''ID''), rows = [], width = Undefined\<rparr>
        (falsyCell (Val ''Bob'')) sampleState] =
     [1] \<and>
   filter (\<lambda>c. c = Stroke) (rowCalls sampleSurface styledTable
        \<lparr>header = falsyCell (Val ''ID''), rows = [], width = Undefined\<rparr>
        (falsyCell (Val ''Bob'')) sampleState) = [Stroke] \<and>
   [c. FillColor c <- rowCalls sampleSurface styledTable
        \<lparr>header = falsyCell (Val []), rows = [], width = Undefined\<rparr>
        (falsyCell Null) sampleState] =
     [''#FFFFFF''] \<and>
   [n. FontSize n <- rowCalls sampleSurface styledTable
        \<lparr>header = falsyCell (Val []), rows = [], width = Undefined\<rparr>
        (falsyCell Null) sampleState] =
     [10] \<and>
   [a. Transform a b c d e f <- rowCalls sampleSurface styledTable
        \<lparr>header = falsyCell (Val []), rows = [], width = Undefined\<rparr>
        (falsyCell Null) sampleState] =
     [1] \<and>
   [s. Text s p opts <- rowCalls sampleSurface styledTable
        \<lparr>header = falsyCell (Val []), rows = [], width = Undefined\<rparr>
        (falsyCell Null) sampleState] =
     [CStr ''n/a''] \<and>
   [c. FillColor c <- rowCalls sampleSurface styledTable
        \<lparr>header = emptyCell\<lparr>cellText := Val ''ID'', fontSize := Val 30,
                                color := Val ''#abc''\<rparr>,
            rows = [], width = Undefined\<rparr>
        (emptyCell\<lparr>cellText := Val ''Bob'', fontSize := Val 30, color := Val ''#abc''\<rparr>)
        sampleState] =
     [''#abc''] \<and>
   [n. FontSize n <- rowCalls sampleSurface styledTable
        \<lparr>header = emptyCell\<lparr>cellText := Val ''ID'', fontSize := Val 30,
                                color := Val ''#abc''\<rparr>,
            rows = [], width = Undefined\<rparr>
        (emptyCell\<lparr>cellText := Val ''Bob'', fontSize := Val 30, color := Val ''#abc''\<rparr>)
        sampleState] =
     [30] \<and>
   [t_lineGap opts. Text s p opts <- rowCalls sampleSurface styledTable
        \<lparr>header = emptyCell\<lparr>cellText := Val ''ID'', fontSize := Val 30,
                                color := Val ''#abc''\<rparr>,
            rows = [], width = Undefined\<rparr>
        (emptyCell\<lparr>cellText := Val ''Bob'', fontSize := Val 30, color := Val ''#abc''\<rparr>)
        sampleState] =
     [Some 32.1] \<and>
   cellAlign (PDFTable [idColumn] falsyOptions) = ''left'' \<and>
   cellColor (PDFTable [idColumn] falsyOptions) = ''#222'' \<and>
   cellBorderColor (PDFTable [idColumn] falsyOptions) = ''#ccc'' \<and>
   cellBorderWidth (PDFTable [idColumn] falsyOptions) = 1 \<and>
   cellFont (PDFTable [idColumn] falsyOptions) = ''Helvetica'' \<and>
   \<not> cellItalic (PDFTable [idColumn] falsyOptions) \<and>
   cellFontSize (PDFTable [idColumn] falsyOptions) = 14 \<and>
   headerAlign (PDFTable [idColumn] falsyOptions) = ''left'' \<and>
   headerColor (PDFTable [idColumn] falsyOptions) = ''#000'' \<and>
   headerBorderColor (PDFTable [idColumn] falsyOptions) = ''#000'' \<and>
   headerBorderStyle (PDFTable [idColumn] falsyOptions) = ''bottom'' \<and>
   headerBorderWidth (PDFTable [idColumn] falsyOptions) = 1.5 \<and>
   headerFont (PDFTable [idColumn] falsyOptions) = ''Helvetica-Bold'' \<and>
   \<not> headerItalic (PDFTable [idColumn] falsyOptions) \<and>
   headerFontSize (PDFTable [idColumn] falsyOptions) = 14 \<and>
   tmargins (PDFTable [idColumn] falsyOptions) = default_margins \<and>
   cellEmptyColor (PDFTable [idColumn] falsyOptions) = ''#FFFFFF'' \<and>
   cellEmptyFontSize (PDFTable [idColumn] falsyOptions) = 14 \<and>
   \<not> cellEmptyItalic (PDFTable [idColumn] falsyOptions) \<and>
   cellEmptyText (PDFTable [idColumn] falsyOptions) = ''none'' \<and>
   headerEmptyColor (PDFTable [idColumn] falsyOptions) = ''#FFFFFF'' \<and>
   headerEmptyFontSize (PDFTable [idColumn] falsyOptions) = 14 \<and>
   \<not> headerEmptyItalic (PDFTable [idColumn] falsyOptions) \<and>
   headerEmptyText (PDFTable [idColumn] falsyOptions) = ''none'' \<and>
   \<not> headerAllowWrap (PDFTable [idColumn] falsyOptions) \<and>
   \<not> cellAllowWrap (PDFTable [idColumn] falsyOptions) \<and>
   headerFontSize styledTable = 20 \<and>
   headerEmptyFontSize styledTable = 20 \<and>
   headerColor styledTable = ''#111'' \<and>
   headerBorderColor styledTable = ''#111'' \<and>
   cellBorderColor styledTable = ''#111'' \<and>
   headerItalic styledTable"
  using falsy_override_falls_back [where S = sampleSurface and t = styledTable
      and col = "\<lparr>header = falsyCell (Val ''ID''), rows = [], width = Undefined\<rparr>"
      and st = sampleState and row = "falsyCell (Val ''Bob'')"
      and cols = "[idColumn]" and opts = falsyOptions
      and vs = "''#111''" and vn = 20]
    falsy_override_falls_back [where S = sampleSurface and t = styledTable
      and col = "\<lparr>header = falsyCell (Val []), rows = [], width = Undefined\<rparr>"
      and st = sampleState and row = "falsyCell Null"
      and cols = "[idColumn]" and opts = styledOptions
      and vs = "''#111''" and vn = 20]
    falsy_override_falls_back [where S = sampleSurface and t = styledTable
      and col = "\<lparr>header = emptyCell\<lparr>cellText := Val ''ID'', fontSize := Val 30,
                                color := Val ''#abc''\<rparr>,
            rows = [], width = Undefined\<rparr>"
      and st = sampleState and row = "emptyCell\<lparr>cellText := Val ''Bob'', fontSize := Val 30, color := Val ''#abc''\<rparr>"
      and cols = "[idColumn]" and opts = styledOptions
      and vs = "''#abc''" and vn = 30]
  by (simp add: styledTable_def styledOptions_def PDFTable_def Let_def noOptions_def
      falsyCell_def emptyCell_def falsyOptions_def truthy_str_def truthy_num_def
      truthy_bool_def)

section \<open>Row borders\<close>

lemma row_path_calls:
  "filter isPathCall (newCalls st (addRow_draw S t row st)) =
    (if js_or_js truthy_str (borderStyle row) (cellBorderStyle t) = Val ''none'' then []
     else
      [MoveTo
         (doc_x S (docAfter S (doc st)
            (filter (\<lambda>c. \<not> isPathCall c) (newCalls st (addRow_draw S t row st)))))
         (doc_y S (docAfter S (doc st)
            (filter (\<lambda>c. \<not> isPathCall c) (newCalls st (addRow_draw S t row st))))
          - (if isEmptyText (cellText row)
             then js_or truthy_num (emptyFontSize row) (cellEmptyFontSize t)
             else js_or truthy_num (fontSize row) (cellFontSize t)) * 0.7),
       LineWidth (js_or truthy_num (borderWidth row) (cellBorderWidth t)),
       LineTo
         (doc_x S (docAfter S (doc st)
            (filter (\<lambda>c. \<not> isPathCall c) (newCalls st (addRow_draw S t row st))
             @ take 2 (filter isPathCall (newCalls st (addRow_draw S t row st)))))
          + columnWidth st)
         (doc_y S (docAfter S (doc st)
            (filter (\<lambda>c. \<not> isPathCall c) (newCalls st (addRow_draw S t row st))
             @ take 2 (filter isPathCall (newCalls st (addRow_draw S t row st)))))
          - (if isEmptyText (cellText row)
             then js_or truthy_num (emptyFontSize row) (cellEmptyFontSize t)
             else js_or truthy_num (fontSize row) (cellFontSize t)) * 0.7),
       StrokeColor (js_or truthy_str (borderColor row) (cellBorderColor t)),
       Stroke])"
  by (simp add: addRow_draw_def Let_def newCalls_def)

lemma row_stroke_calls:
  "filter isStrokeCall (newCalls st (addRow_draw S t row st)) =
    (if js_or_js truthy_str (borderStyle row) (cellBorderStyle t) = Val ''none'' then []
     else [StrokeColor (js_or truthy_str (borderColor row) (cellBorderColor t)), Stroke])"
  by (simp add: addRow_draw_def Let_def newCalls_def)

text \<open>
  C6. A row whose resolved border style is \<open>'none'\<close> makes no border call, so no
  stroke call. Any other row makes exactly one stroke call: after the row's other
  calls it moves to \<open>(doc.x, doc.y - fontSize * 0.7)\<close>, sets the resolved border
  width, draws the line to \<open>(doc.x + columnWidth, doc.y - fontSize * 0.7)\<close>, sets the
  resolved border colour and strokes, where \<open>fontSize\<close> is the font size the row is
  drawn with and \<open>doc.x\<close>, \<open>doc.y\<close> are read from the surface when each call is
  made.
\<close>

theorem row_border_stroke:
  "filter isPathCall (rowCalls S t col row st) =
    (if js_or_js truthy_str (borderStyle row) (cellBorderStyle t) = Val ''none'' then []
     else
      (let before = filter (\<lambda>c. \<not> isPathCall c) (rowCalls S t col row st);
           d0 = doc (addRow_pageBreak S t col st);
           d1 = docAfter S d0 before;
           d2 = docAfter S d0
                  (before @ take 2 (filter isPathCall (rowCalls S t col row st)));
           fs = (if isEmptyText (cellText row)
                 then js_or truthy_num (emptyFontSize row) (cellEmptyFontSize t)
                 else js_or truthy_num (fontSize row) (cellFontSize t))
       in [MoveTo (doc_x S d1) (doc_y S d1 - fs * 0.7),
           LineWidth (js_or truthy_num (borderWidth row) (cellBorderWidth t)),
           LineTo (doc_x S d2 + columnWidth st) (doc_y S d2 - fs * 0.7),
           StrokeColor (js_or truthy_str (borderColor row) (cellBorderColor t)),
           Stroke])) \<and>
   filter isStrokeCall (rowCalls S t col row st) =
    (if js_or_js truthy_str (borderStyle row) (cellBorderStyle t) = Val ''none'' then []
     else [StrokeColor (js_or truthy_str (borderColor row) (cellBorderColor t)), Stroke])"
  unfolding rowCalls_def addRow_def Let_def
  using row_path_calls [of "addRow_pageBreak S t col st" S t row]
    row_stroke_calls [of "addRow_pageBreak S t col st" S t row]
  by (simp only: frame_addRow_pageBreak simp_thms)

lemmas surface_defs =
  sampleSurface_def sampleState_def initState_def sampleDoc_def samplePageCheck_def
  gapOf_def wrapOpts_def noWrapOpts_def

theorem row_border_stroke_witness:
  "filter isPathCall
     (rowCalls sampleSurface sampleTable idColumn (textCell ''Bob'')
        (sampleState\<lparr>columnWidth := 250\<rparr>)) =
     [MoveTo 40 685.18, LineWidth 1, LineTo 290 685.18, StrokeColor ''#ccc'', Stroke] \<and>
   filter isPathCall
     (rowCalls sampleSurface sampleTable idColumn
        (emptyCell\<lparr>cellText := Val ''Bob'', borderStyle := Val ''none''\<rparr>)
        (sampleState\<lparr>columnWidth := 250\<rparr>)) = []"
proof -
  have a: "rowCalls sampleSurface sampleTable idColumn (textCell ''Bob'')
             (sampleState\<lparr>columnWidth := 250\<rparr>) =
           [Save, FillColor ''#222'', Font ''Helvetica'', FontSize 14,
            Text (CStr ''Bob'') None (noWrapOpts ''left'' (14 * 1.07) 250), Restore,
            MoveTo 40 685.18, LineWidth 1, LineTo 290 685.18, StrokeColor ''#ccc'', Stroke]"
    by (simp add: rowCalls_def addRow_def addRow_pageBreak_def addRow_draw_def newCalls_def
        rowLineGap_def emit_def sample_defs surface_defs)
  show ?thesis
    using row_border_stroke [of sampleSurface sampleTable idColumn "textCell ''Bob''"
        "sampleState\<lparr>columnWidth := 250\<rparr>"]
      row_border_stroke [of sampleSurface sampleTable idColumn
        "emptyCell\<lparr>cellText := Val ''Bob'', borderStyle := Val ''none''\<rparr>"
        "sampleState\<lparr>columnWidth := 250\<rparr>"]
    by (simp add: a truthy_str_def)
qed

section \<open>The default border colour of rows\<close>

lemma PDFTable_border_defaults:
  "cellBorderColor (PDFTable cols opts) = js_or truthy_str (o_headerColor opts) ''#ccc''"
  "cellBorderStyle (PDFTable cols opts) = Undefined"
  by (simp_all add: PDFTable_def Let_def)

text \<open>
  C10. On a constructed table the default border colour of rows is
  \<open>options.headerColor\<close>, or \<open>'#ccc'\<close> when that is unset, and there is no default
  border style. So a row whose \<open>borderStyle\<close> is unset always gets its border, and
  when its \<open>borderColor\<close> is unset too the border is stroked in
  \<open>options.headerColor\<close> (or \<open>'#ccc'\<close>): a non-empty \<open>options.headerColor\<close> is the
  stroke colour.
\<close>

theorem row_border_color_is_headerColor:
  "cellBorderColor (PDFTable cols opts) = js_or truthy_str (o_headerColor opts) ''#ccc'' \<and>
   cellBorderStyle (PDFTable cols opts) = Undefined \<and>
   ((borderStyle row = Undefined \<or> borderStyle row = Null) \<longrightarrow>
      filter isStrokeCall (rowCalls S (PDFTable cols opts) col row st) =
        [StrokeColor (js_or truthy_str (borderColor row)
           (js_or truthy_str (o_headerColor opts) ''#ccc'')), Stroke]) \<and>
   ((borderStyle row = Undefined \<or> borderStyle row = Null) \<and>
    (borderColor row = Undefined \<or> borderColor row = Null) \<longrightarrow>
      filter isStrokeCall (rowCalls S (PDFTable cols opts) col row st) =
        [StrokeColor (js_or truthy_str (o_headerColor opts) ''#ccc''), Stroke]) \<and>
   ((borderStyle row = Undefined \<or> borderStyle row = Null) \<and>
    (borderColor row = Undefined \<or> borderColor row = Null) \<and>
    o_headerColor opts = Val c \<and> c \<noteq> [] \<longrightarrow>
      filter isStrokeCall (rowCalls S (PDFTable cols opts) col row st) =
        [StrokeColor c, Stroke])"
  unfolding rowCalls_def addRow_def
  by (auto simp: row_stroke_calls PDFTable_border_defaults truthy_str_def)

theorem row_border_color_is_headerColor_witness:
  "borderStyle (textCell ''Bob'') = Undefined \<and>
   borderColor (textCell ''Bob'') = Undefined \<and>
   o_headerColor (noOptions\<lparr>o_headerColor := Val ''#f00''\<rparr>) = Val ''#f00'' \<and>
   ''#f00'' \<noteq> [] \<and>
   filter isStrokeCall
     (rowCalls sampleSurface (PDFTable [idColumn] (noOptions\<lparr>o_headerColor := Val ''#f00''\<rparr>))
        idColumn (textCell ''Bob'') sampleState) =
     [StrokeColor ''#f00'', Stroke]"
  using row_border_color_is_headerColor [of "[idColumn]"
      "noOptions\<lparr>o_headerColor := Val ''#f00''\<rparr>" "textCell ''Bob''" sampleSurface
      idColumn sampleState "''#f00''"]
  by (simp add: textCell_def emptyCell_def truthy_str_def)

section \<open>The footer\<close>

lemma footerLoop_entries:
  "list_all isFooterEntry es \<Longrightarrow>
   footerLoop m h lh es =
     concat (map (\<lambda>i. entrySpans (m_left m) ((h + m_bottom m) - (lh - real i) * 9) (es ! i))
       [0..<length es])"
proof (induction es arbitrary: lh)
  case Nil
  show ?case by simp
next
  case (Cons e es)
  have shift: "[0..<length (e # es)] = 0 # map Suc [0..<length es]"
    by (simp add: upt_conv_Cons map_Suc_upt del: upt_Suc)
  from Cons.prems have rest: "list_all isFooterEntry es" by simp
  have tail: "footerLoop m h (lh - 1) es =
      concat (map (\<lambda>i. entrySpans (m_left m) ((h + m_bottom m) - (lh - real (Suc i)) * 9)
                          ((e # es) ! Suc i)) [0..<length es])"
    using Cons.IH [OF rest, of "lh - 1"] by (simp add: algebra_simps)
  from Cons.prems have "isFooterEntry e" by simp
  then show ?case
  proof (cases e rule: isFooterEntry.cases)
    case (1 s)
    then show ?thesis
      unfolding shift using tail by (simp add: comp_def)
  next
    case (2 l v)
    then show ?thesis
      unfolding shift using tail by (simp add: comp_def)
  qed (use \<open>isFooterEntry e\<close> in simp_all)
qed

lemma footerLoop_filter:
  "footerLoop m h lh es = footerLoop m h lh (filter isFooterEntry es)"
  by (induction m h lh es rule: footerLoop.induct) simp_all

lemma footerLoop_rendered:
  "footerLoop m h lh es =
     concat (map (\<lambda>k. entrySpans (m_left m) ((h + m_bottom m) - (lh - real k) * 9)
                         (filter isFooterEntry es ! k))
       [0..<length (filter isFooterEntry es)])"
proof -
  have "list_all isFooterEntry (filter isFooterEntry es)"
    by (simp add: list_all_iff)
  from footerLoop_entries [OF this, of m h lh] show ?thesis
    by (subst footerLoop_filter) simp
qed

text \<open>
  C9. When every entry of the footer data is a string or a complete label and value
  pair, \<open>addFooterData\<close> sets the font and the size 9 and then draws the entries in
  order, entry \<open>i\<close> of \<open>n\<close> at the left margin and at
  \<open>y = (height + bottom margin) - (n - 1 - i) * 9\<close>: a string as one text span, a
  pair as the bold label with a colon, without a line break, followed by the value in
  the normal font. For any data, the entries of these two kinds are drawn in order,
  the \<open>k\<close>-th of them at \<open>y = (height + bottom margin) - (n - 1 - k) * 9\<close> where \<open>n\<close>
  counts all entries, and the other entries draw nothing.
\<close>

theorem footer_entries_bottom_up:
  "(list_all isFooterEntry (fdata f) \<longrightarrow>
      addFooterData f p =
        [Font ''Helvetica'', FontSize 9]
        @ concat (map (\<lambda>i. entrySpans (m_left (b_margins (f_builder p)))
                    ((f_height p + m_bottom (b_margins (f_builder p)))
                     - (real (length (fdata f)) - 1 - real i) * 9)
                    (fdata f ! i))
            [0..<length (fdata f)])) \<and>
   addFooterData f p =
     [Font ''Helvetica'', FontSize 9]
     @ concat (map (\<lambda>k. entrySpans (m_left (b_margins (f_builder p)))
                 ((f_height p + m_bottom (b_margins (f_builder p)))
                  - (real (length (fdata f)) - 1 - real k) * 9)
                 (filter isFooterEntry (fdata f) ! k))
         [0..<length (filter isFooterEntry (fdata f))])"
proof (intro conjI impI)
  assume "list_all isFooterEntry (fdata f)"
  then show "addFooterData f p =
        [Font ''Helvetica'', FontSize 9]
        @ concat (map (\<lambda>i. entrySpans (m_left (b_margins (f_builder p)))
                    ((f_height p + m_bottom (b_margins (f_builder p)))
                     - (real (length (fdata f)) - 1 - real i) * 9)
                    (fdata f ! i))
            [0..<length (fdata f)])"
    by (simp add: addFooterData_def footerLoop_entries)
next
  show "addFooterData f p =
     [Font ''Helvetica'', FontSize 9]
     @ concat (map (\<lambda>k. entrySpans (m_left (b_margins (f_builder p)))
                 ((f_height p + m_bottom (b_margins (f_builder p)))
                  - (real (length (fdata f)) - 1 - real k) * 9)
                 (filter isFooterEntry (fdata f) ! k))
         [0..<length (filter isFooterEntry (fdata f))])"
    using footerLoop_rendered [of "b_margins (f_builder p)" "f_height p"
        "real (length (fdata f)) - 1" "fdata f"]
    by (simp add: addFooterData_def)
qed

text \<open>
  The data \<open>["Generated 2024-01-01", {label: "Total", value: "42"}]\<close> on a page of
  content height 712 with a bottom margin of 40 and a left margin of 50.
\<close>

theorem footer_entries_bottom_up_witness:
  "list_all isFooterEntry
     (fdata (BasicPDFFooter \<lparr>fo_includePagination = Undefined,
        fo_data = DataArray [EString ''Generated 2024-01-01'',
                             EObject (Some ''Total'') (Some ''42'')]\<rparr>)) \<and>
   addFooterData
     (BasicPDFFooter \<lparr>fo_includePagination = Undefined,
        fo_data = DataArray [EString ''Generated 2024-01-01'',
                             EObject (Some ''Total'') (Some ''42'')]\<rparr>)
     (pageInfo sampleBuilder) =
     [Font ''Helvetica'', FontSize 9,
      Text (CStr ''Generated 2024-01-01'') (Some (50, 743)) no_opts,
      Font ''Helvetica-Bold'',
      Text (CStr ''Total:'') (Some (50, 752)) (no_opts\<lparr>t_lineBreak := Some False\<rparr>),
      Font ''Helvetica'',
      Text (CStr ''42'') None no_opts]"
proof -
  have d: "fdata (BasicPDFFooter \<lparr>fo_includePagination = Undefined,
        fo_data = DataArray [EString ''Generated 2024-01-01'',
                             EObject (Some ''Total'') (Some ''42'')]\<rparr>) =
      [EString ''Generated 2024-01-01'', EObject (Some ''Total'') (Some ''42'')]"
    by (simp add: BasicPDFFooter_def)
  have h: "list_all isFooterEntry
     (fdata (BasicPDFFooter \<lparr>fo_includePagination = Undefined,
        fo_data = DataArray [EString ''Generated 2024-01-01'',
                             EObject (Some ''Total'') (Some ''42'')]\<rparr>))"
    unfolding d by simp
  have u: "[0..<2] = [0, 1]"
    by (simp add: upt_conv_Cons)
  have "addFooterData
     (BasicPDFFooter \<lparr>fo_includePagination = Undefined,
        fo_data = DataArray [EString ''Generated 2024-01-01'',
                             EObject (Some ''Total'') (Some ''42'')]\<rparr>)
     (pageInfo sampleBuilder) =
     [Font ''Helvetica'', FontSize 9]
     @ concat (map (\<lambda>i. entrySpans (m_left (b_margins (f_builder (pageInfo sampleBuilder))))
         ((f_height (pageInfo sampleBuilder)
           + m_bottom (b_margins (f_builder (pageInfo sampleBuilder))))
          - (real (length (fdata (BasicPDFFooter \<lparr>fo_includePagination = Undefined,
               fo_data = DataArray [EString ''Generated 2024-01-01'',
                             EObject (Some ''Total'') (Some ''42'')]\<rparr>))) - 1 - real i) * 9)
         (fdata (BasicPDFFooter \<lparr>fo_includePagination = Undefined,
               fo_data = DataArray [EString ''Generated 2024-01-01'',
                             EObject (Some ''Total'') (Some ''42'')]\<rparr>) ! i))
       [0..<length (fdata (BasicPDFFooter \<lparr>fo_includePagination = Undefined,
               fo_data = DataArray [EString ''Generated 2024-01-01'',
                             EObject (Some ''Total'') (Some ''42'')]\<rparr>))])"
    using h footer_entries_bottom_up [of
        "BasicPDFFooter \<lparr>fo_includePagination = Undefined,
           fo_data = DataArray [EString ''Generated 2024-01-01'',
                                EObject (Some ''Total'') (Some ''42'')]\<rparr>"
        "pageInfo sampleBuilder"]
    by blast
  then show ?thesis
    using h by (simp add: d u pageInfo_def sampleBuilder_def)
qed

section \<open>Pagination\<close>

lemma footerLoop_not_right_aligned: "filter isRightAligned (footerLoop m h lh es) = []"
  by (induction m h lh es rule: footerLoop.induct) (simp_all add: no_opts_def)

lemma addFooterData_not_right_aligned: "filter isRightAligned (addFooterData f p) = []"
  by (simp add: addFooterData_def footerLoop_not_right_aligned)

text \<open>
  C8. Pagination is enabled unless \<open>options.includePagination\<close> is \<open>false\<close>. When it
  is enabled, a page-added invocation draws exactly one right-aligned text: the title,
  \<open>" - "\<close> and the page counter when the title has non-zero length, the page counter
  itself when the title is empty; its width is the content width (the page width less
  the left and right margins). When pagination is disabled no such text is drawn.
\<close>

theorem pagination_text:
  "includePagination (BasicPDFFooter opts) = (fo_includePagination opts \<noteq> Val False) \<and>
   (includePagination f \<longrightarrow>
      filter isRightAligned (onPageAdded f b) =
        [Text (if 0 < length (title b)
               then CStr (title b @ '' - '' @ showInt (b_currentPage b))
               else CNum (b_currentPage b))
           (Some (m_left (b_margins b),
                  page_height b - m_top (b_margins b) - m_bottom (b_margins b)
                  + m_bottom (b_margins b)))
           (no_opts\<lparr>t_align := Some ''right'',
                     t_width := Some (page_width b - m_left (b_margins b)
                                      - m_right (b_margins b))\<rparr>)]) \<and>
   (\<not> includePagination f \<longrightarrow> filter isRightAligned (onPageAdded f b) = [])"
  by (auto simp: onPageAdded_def addFooterData_not_right_aligned addPagination_def
      pageInfo_def Let_def BasicPDFFooter_def)

theorem pagination_text_witness:
  "includePagination (BasicPDFFooter \<lparr>fo_includePagination = Undefined, fo_data = DataAbsent\<rparr>) \<and>
   filter isRightAligned
     (onPageAdded (BasicPDFFooter \<lparr>fo_includePagination = Undefined, fo_data = DataAbsent\<rparr>)
        sampleBuilder) =
     [Text (CStr ''Report - 3'') (Some (50, 752))
        (no_opts\<lparr>t_align := Some ''right'', t_width := Some 512\<rparr>)] \<and>
   filter isRightAligned
     (onPageAdded (BasicPDFFooter \<lparr>fo_includePagination = Undefined, fo_data = DataAbsent\<rparr>)
        (sampleBuilder\<lparr>title := []\<rparr>)) =
     [Text (CNum 3) (Some (50, 752))
        (no_opts\<lparr>t_align := Some ''right'', t_width := Some 512\<rparr>)] \<and>
   \<not> includePagination (BasicPDFFooter \<lparr>fo_includePagination = Val False, fo_data = DataAbsent\<rparr>) \<and>
   filter isRightAligned
     (onPageAdded (BasicPDFFooter \<lparr>fo_includePagination = Val False, fo_data = DataAbsent\<rparr>)
        sampleBuilder) = []"
proof -
  have on: "includePagination
      (BasicPDFFooter \<lparr>fo_includePagination = Undefined, fo_data = DataAbsent\<rparr>)"
    by (simp add: BasicPDFFooter_def)
  have off: "\<not> includePagination
      (BasicPDFFooter \<lparr>fo_includePagination = Val False, fo_data = DataAbsent\<rparr>)"
    by (simp add: BasicPDFFooter_def)
  have three: "showInt 3 = ''3''"
    by (simp add: showInt_def digitChar_def)
  show ?thesis
    using on off
      pagination_text [of "\<lparr>fo_includePagination = Undefined, fo_data = DataAbsent\<rparr>"
        "BasicPDFFooter \<lparr>fo_includePagination = Undefined, fo_data = DataAbsent\<rparr>"
        sampleBuilder]
      pagination_text [of "\<lparr>fo_includePagination = Undefined, fo_data = DataAbsent\<rparr>"
        "BasicPDFFooter \<lparr>fo_includePagination = Undefined, fo_data = DataAbsent\<rparr>"
        "sampleBuilder\<lparr>title := []\<rparr>"]
      pagination_text [of "\<lparr>fo_includePagination = Val False, fo_data = DataAbsent\<rparr>"
        "BasicPDFFooter \<lparr>fo_includePagination = Val False, fo_data = DataAbsent\<rparr>"
        sampleBuilder]
    by (simp add: three sampleBuilder_def)
qed

section \<open>Headers, rows and page breaks\<close>

lemma events_append [simp]: "events (a @ b) = events a @ events b"
  by (simp add: events_def)

lemma events_Nil [simp]: "events [] = []"
  by (simp add: events_def)

lemma header_events:
  "events (trace (addHeader S t col st)) =
     events (trace st) @ [HeaderRender (px (currentPosition st)) (py (currentPosition st))]"
  by (simp add: addHeader_def Let_def events_def)

lemma row_draw_events:
  "events (trace (addRow_draw S t row st)) = events (trace st) @ [RowRender]"
  by (simp add: addRow_draw_def Let_def events_def)

lemma pageBreak_events:
  "events (trace (addRow_pageBreak S t col st)) =
     events (trace st) @
     (if fst (pageCheck S (currentPage st) (pageCount S (doc st)) (doc st))
      then [PageCheck True,
            HeaderRender (px (currentPosition st))
              (doc_y S (snd (pageCheck S (currentPage st) (pageCount S (doc st)) (doc st))))]
      else [PageCheck False])"
  by (simp add: addRow_pageBreak_def Let_def header_events) (simp add: events_def)

lemma pageBreak_cursor:
  "currentPage (addRow_pageBreak S t col st) =
     (if fst (pageCheck S (currentPage st) (pageCount S (doc st)) (doc st))
      then currentPage st + 1 else currentPage st)"
  "py (currentPosition (addRow_pageBreak S t col st)) =
     (if fst (pageCheck S (currentPage st) (pageCount S (doc st)) (doc st))
      then doc_y S (snd (pageCheck S (currentPage st) (pageCount S (doc st)) (doc st)))
      else py (currentPosition st))"
  by (simp_all add: addRow_pageBreak_def Let_def frame_addHeader)

lemma addRow_events:
  "events (trace (addRow S t col row st)) =
     events (trace st) @
     (if fst (pageCheck S (currentPage st) (pageCount S (doc st)) (doc st))
      then [PageCheck True,
            HeaderRender (px (currentPosition st))
              (doc_y S (snd (pageCheck S (currentPage st) (pageCount S (doc st)) (doc st)))),
            RowRender]
      else [PageCheck False, RowRender])"
  by (simp add: addRow_def row_draw_events pageBreak_events)

lemma rows_events:
  "\<exists>evs. events (trace (foldl (\<lambda>s row. addRow S t col row s) st rs)) =
            events (trace st) @ evs \<and>
         (\<forall>rest. rowsPattern (length rs) (evs @ rest) = Some rest)"
proof (induction rs arbitrary: st)
  case Nil
  show ?case by simp
next
  case (Cons r rs)
  obtain evs where
    e: "events (trace (foldl (\<lambda>s row. addRow S t col row s) (addRow S t col r st) rs)) =
          events (trace (addRow S t col r st)) @ evs"
    and p: "\<And>rest. rowsPattern (length rs) (evs @ rest) = Some rest"
    using Cons.IH [of "addRow S t col r st"] by blast
  show ?case
  proof (cases "fst (pageCheck S (currentPage st) (pageCount S (doc st)) (doc st))")
    case True
    then show ?thesis
      using e p by (simp add: addRow_events)
  next
    case False
    then show ?thesis
      using e p by (simp add: addRow_events)
  qed
qed

lemma addColumn_events:
  "\<exists>evs. events (trace (addColumn S t col st)) =
            events (trace st)
            @ HeaderRender (px (currentPosition st)) (py (currentPosition st)) # evs \<and>
         (\<forall>rest. rowsPattern (length (rows col)) (evs @ rest) = Some rest)"
proof -
  let ?st1 = "st\<lparr>columnWidth := calcColumnWidth t (contentWidth S (doc st)) (width col)\<rparr>"
  obtain evs where
    e: "events (trace (foldl (\<lambda>s row. addRow S t col row s) (addHeader S t col ?st1) (rows col))) =
          events (trace (addHeader S t col ?st1)) @ evs"
    and p: "\<And>rest. rowsPattern (length (rows col)) (evs @ rest) = Some rest"
    using rows_events [of S t col "addHeader S t col ?st1" "rows col"] by blast
  show ?thesis
    using e p by (simp add: addColumn_def Let_def header_events)
qed

lemma columnPass_events:
  "\<exists>evs. events (trace (columnPass S t st col)) =
            events (trace st)
            @ HeaderRender (px (currentPosition st)) (py (startingPosition st)) # evs \<and>
         (\<forall>rest. rowsPattern (length (rows col)) (evs @ rest) = Some rest)"
proof -
  let ?st3 = "emit S (SwitchToPage (startingPage st))
    (st\<lparr>currentPage := startingPage st,
        currentPosition := (currentPosition st)\<lparr>py := py (startingPosition st)\<rparr>\<rparr>)"
  have c: "columnPass S t st col = addColumn S t col ?st3"
    by (simp add: columnPass_def Let_def)
  show ?thesis
    unfolding c using addColumn_events [of S t col ?st3] by (simp add: events_def)
qed

lemma columns_events:
  "\<exists>evs. events (trace (foldl (columnPass S t) st cs)) = events (trace st) @ evs \<and>
         tablePattern (map (\<lambda>c. length (rows c)) cs) evs"
proof (induction cs arbitrary: st)
  case Nil
  show ?case by simp
next
  case (Cons c cs)
  obtain e1 where
    a: "events (trace (columnPass S t st c)) =
          events (trace st)
          @ HeaderRender (px (currentPosition st)) (py (startingPosition st)) # e1"
    and p: "\<And>rest. rowsPattern (length (rows c)) (e1 @ rest) = Some rest"
    using columnPass_events [of S t st c] by blast
  obtain e2 where
    b: "events (trace (foldl (columnPass S t) (columnPass S t st c) cs)) =
          events (trace (columnPass S t st c)) @ e2"
    and q: "tablePattern (map (\<lambda>c. length (rows c)) cs) e2"
    using Cons.IH [of "columnPass S t st c"] by blast
  show ?case
    using a b p q by simp
qed

lemma addToPDF_events:
  "tablePattern (map (\<lambda>c. length (rows c)) (columns t)) (events (trace (addToPDF S t d)))"
proof -
  obtain evs where
    a: "events (trace (foldl (columnPass S t) (initState S d) (columns t))) =
          events (trace (initState S d)) @ evs"
    and p: "tablePattern (map (\<lambda>c. length (rows c)) (columns t)) evs"
    using columns_events [of S t "initState S d" "columns t"] by blast
  show ?thesis
    using a p by (simp add: addToPDF_def Let_def initState_def events_def)
qed

text \<open>
  C1. A header render makes one header draw and no page check. A row render makes one
  page check; when the check reports a new page, the page counter is incremented, the
  cursor's \<open>y\<close> becomes the surface's \<open>y\<close> after the check, and one header is drawn
  there, at the column's \<open>x\<close>, before the row is drawn; otherwise the row is drawn
  directly. A whole table render is, for each column in turn, one header render
  followed by the column's rows, each of this shape.
\<close>

theorem header_repeated_on_page_break:
  "events (trace (addHeader S t col st)) =
     events (trace st) @ [HeaderRender (px (currentPosition st)) (py (currentPosition st))] \<and>
   events (trace (addRow S t col row st)) =
     events (trace st) @
     (if fst (pageCheck S (currentPage st) (pageCount S (doc st)) (doc st))
      then [PageCheck True,
            HeaderRender (px (currentPosition st))
              (doc_y S (snd (pageCheck S (currentPage st) (pageCount S (doc st)) (doc st)))),
            RowRender]
      else [PageCheck False, RowRender]) \<and>
   currentPage (addRow S t col row st) =
     (if fst (pageCheck S (currentPage st) (pageCount S (doc st)) (doc st))
      then currentPage st + 1 else currentPage st) \<and>
   py (currentPosition (addRow S t col row st)) =
     (if fst (pageCheck S (currentPage st) (pageCount S (doc st)) (doc st))
      then doc_y S (snd (pageCheck S (currentPage st) (pageCount S (doc st)) (doc st)))
      else py (currentPosition st)) \<and>
   tablePattern (map (\<lambda>c. length (rows c)) (columns t)) (events (trace (addToPDF S t d)))"
  using header_events [of S t col st] addRow_events [of S t col row st]
    pageBreak_cursor [of S t col st] addToPDF_events [of t S d]
  by (simp add: addRow_def frame_addRow_draw)

text \<open>
  A row added when the surface's \<open>y\<close> is 710, past the sample surface's limit of 700:
  the page check reports a new page, the header is drawn again at the new page's
  \<open>y\<close> of 50, then the row. The sample table has two columns of three rows.
\<close>

theorem header_repeated_on_page_break_witness:
  "events (trace (addRow sampleSurface sampleTable idColumn (textCell ''3'')
       (sampleState\<lparr>doc := sampleDoc\<lparr>sy := 710\<rparr>\<rparr>))) =
     [PageCheck True, HeaderRender 40 50, RowRender] \<and>
   currentPage (addRow sampleSurface sampleTable idColumn (textCell ''3'')
       (sampleState\<lparr>doc := sampleDoc\<lparr>sy := 710\<rparr>\<rparr>)) = 1 \<and>
   py (currentPosition (addRow sampleSurface sampleTable idColumn (textCell ''3'')
       (sampleState\<lparr>doc := sampleDoc\<lparr>sy := 710\<rparr>\<rparr>))) = 50 \<and>
   events (trace (addRow sampleSurface sampleTable idColumn (textCell ''3'') sampleState)) =
     [PageCheck False, RowRender] \<and>
   tablePattern [3, 3] (events (trace (addToPDF sampleSurface sampleTable sampleDoc)))"
proof -
  have c: "map (\<lambda>c. length (rows c)) (columns sampleTable) = [3, 3]"
    by (simp add: sample_defs)
  have p1: "pageCheck sampleSurface
              (currentPage (sampleState\<lparr>doc := sampleDoc\<lparr>sy := 710\<rparr>\<rparr>))
              (pageCount sampleSurface (doc (sampleState\<lparr>doc := sampleDoc\<lparr>sy := 710\<rparr>\<rparr>)))
              (doc (sampleState\<lparr>doc := sampleDoc\<lparr>sy := 710\<rparr>\<rparr>)) =
            (True, \<lparr>sx = 40, sy = 50, spages = 2\<rparr>)"
    by (simp add: surface_defs)
  have p2: "pageCheck sampleSurface (currentPage sampleState)
              (pageCount sampleSurface (doc sampleState)) (doc sampleState) =
            (False, sampleDoc)"
    by (simp add: surface_defs)
  have s1: "currentPage (sampleState\<lparr>doc := sampleDoc\<lparr>sy := 710\<rparr>\<rparr>) = 0"
    "px (currentPosition (sampleState\<lparr>doc := sampleDoc\<lparr>sy := 710\<rparr>\<rparr>)) = 40"
    "trace (sampleState\<lparr>doc := sampleDoc\<lparr>sy := 710\<rparr>\<rparr>) = []"
    "trace sampleState = []"
    "px (currentPosition sampleState) = 40"
    "currentPage sampleState = 0"
    "doc_y sampleSurface \<lparr>sx = 40, sy = 50, spages = 2\<rparr> = 50"
    by (simp_all add: surface_defs)
  show ?thesis
    using header_repeated_on_page_break [of sampleSurface sampleTable idColumn
        "sampleState\<lparr>doc := sampleDoc\<lparr>sy := 710\<rparr>\<rparr>" "textCell ''3''" sampleDoc]
      header_repeated_on_page_break [of sampleSurface sampleTable idColumn
        sampleState "textCell ''3''" sampleDoc]
    unfolding p1 p2 c by (simp add: s1)
qed

section \<open>The cursor across columns\<close>

lemma grows_trans:
  assumes ab: "trace b = trace a @ newCalls a b"
    and bc: "trace c = trace b @ newCalls b c"
  shows "trace c = trace a @ newCalls a c"
proof -
  obtain p where p: "trace b = trace a @ p"
    using ab by (rule that)
  obtain q where q: "trace c = trace b @ q"
    using bc by (rule that)
  have "trace c = trace a @ (p @ q)"
    by (simp add: p q)
  then show ?thesis
    by (simp add: newCalls_def)
qed

lemma grows_addHeader:
  "trace (addHeader S t col st) = trace st @ newCalls st (addHeader S t col st)"
  by (simp add: addHeader_def Let_def newCalls_def)

lemma grows_addRow_draw:
  "trace (addRow_draw S t row st) = trace st @ newCalls st (addRow_draw S t row st)"
  by (simp add: addRow_draw_def Let_def newCalls_def)

lemma grows_addRow_pageBreak:
  "trace (addRow_pageBreak S t col st) = trace st @ newCalls st (addRow_pageBreak S t col st)"
proof (cases "fst (pageCheck S (currentPage st) (pageCount S (doc st)) (doc st))")
  case True
  let ?st1 = "st\<lparr>doc := snd (pageCheck S (currentPage st) (pageCount S (doc st)) (doc st)),
     trace := trace st @ [AddPageIfNeeded (currentPage st) (pageCount S (doc st)) True]\<rparr>"
  let ?st2 = "?st1\<lparr>currentPage := currentPage ?st1 + 1,
     currentPosition := (currentPosition ?st1)\<lparr>py := doc_y S (doc ?st1)\<rparr>\<rparr>"
  have r: "addRow_pageBreak S t col st = addHeader S t col ?st2"
    using True by (simp add: addRow_pageBreak_def Let_def)
  have a: "trace ?st2 = trace st @ newCalls st ?st2"
    by (simp add: newCalls_def)
  show ?thesis
    unfolding r using grows_trans [OF a grows_addHeader [of S t col ?st2]] .
next
  case False
  then show ?thesis
    by (simp add: addRow_pageBreak_def Let_def newCalls_def)
qed

lemma grows_addRow:
  "trace (addRow S t col row st) = trace st @ newCalls st (addRow S t col row st)"
  unfolding addRow_def
  using grows_trans [OF grows_addRow_pageBreak grows_addRow_draw] .

lemma grows_rows:
  "trace (foldl (\<lambda>s row. addRow S t col row s) st rs) =
     trace st @ newCalls st (foldl (\<lambda>s row. addRow S t col row s) st rs)"
proof (induction rs arbitrary: st)
  case Nil
  show ?case by (simp add: newCalls_def)
next
  case (Cons r rs)
  show ?case
    using grows_trans [OF grows_addRow [of S t col r st] Cons.IH [of "addRow S t col r st"]]
    by simp
qed

lemma frame_addRow:
  "columnWidth (addRow S t col row st) = columnWidth st"
  "startingPosition (addRow S t col row st) = startingPosition st"
  "startingPage (addRow S t col row st) = startingPage st"
  "px (currentPosition (addRow S t col row st)) = px (currentPosition st)"
  by (simp_all add: addRow_def frame_addRow_draw frame_addRow_pageBreak)

lemma frame_rows:
  "columnWidth (foldl (\<lambda>s row. addRow S t col row s) st rs) = columnWidth st \<and>
   startingPosition (foldl (\<lambda>s row. addRow S t col row s) st rs) = startingPosition st \<and>
   startingPage (foldl (\<lambda>s row. addRow S t col row s) st rs) = startingPage st \<and>
   px (currentPosition (foldl (\<lambda>s row. addRow S t col row s) st rs)) =
     px (currentPosition st)"
  by (induction rs arbitrary: st) (simp_all add: frame_addRow)

lemma frame_addColumn:
  "columnWidth (addColumn S t col st) =
     calcColumnWidth t (contentWidth S (doc st)) (width col)"
  "startingPosition (addColumn S t col st) = startingPosition st"
  "startingPage (addColumn S t col st) = startingPage st"
  "px (currentPosition (addColumn S t col st)) =
     px (currentPosition st) + calcColumnWidth t (contentWidth S (doc st)) (width col)"
  by (simp_all add: addColumn_def Let_def frame_rows frame_addHeader)

lemma grows_addColumn:
  "trace (addColumn S t col st) = trace st @ newCalls st (addColumn S t col st)"
proof -
  let ?st1 = "st\<lparr>columnWidth := calcColumnWidth t (contentWidth S (doc st)) (width col)\<rparr>"
  have a: "trace ?st1 = trace st @ newCalls st ?st1"
    by (simp add: newCalls_def)
  have b: "trace (foldl (\<lambda>s row. addRow S t col row s) (addHeader S t col ?st1) (rows col)) =
      trace st @ newCalls st
        (foldl (\<lambda>s row. addRow S t col row s) (addHeader S t col ?st1) (rows col))"
    using grows_trans [OF grows_trans [OF a grows_addHeader] grows_rows] .
  show ?thesis
    using b by (simp add: addColumn_def Let_def newCalls_def)
qed

lemma frame_columnPass:
  "columnWidth (columnPass S t st col) =
     calcColumnWidth t
       (contentWidth S (perform S (SwitchToPage (startingPage st)) (doc st))) (width col)"
  "startingPosition (columnPass S t st col) = startingPosition st"
  "startingPage (columnPass S t st col) = startingPage st"
  "px (currentPosition (columnPass S t st col)) =
     px (currentPosition st)
     + calcColumnWidth t
         (contentWidth S (perform S (SwitchToPage (startingPage st)) (doc st))) (width col)"
  by (simp_all add: columnPass_def Let_def frame_addColumn)

lemma columnPass_calls:
  "newCalls st (columnPass S t st col) =
     SwitchToPage (startingPage st)
     # newCalls
         (emit S (SwitchToPage (startingPage st))
            (st\<lparr>currentPage := startingPage st,
                currentPosition := (currentPosition st)\<lparr>py := py (startingPosition st)\<rparr>\<rparr>))
         (columnPass S t st col)"
proof -
  let ?st3 = "emit S (SwitchToPage (startingPage st))
    (st\<lparr>currentPage := startingPage st,
        currentPosition := (currentPosition st)\<lparr>py := py (startingPosition st)\<rparr>\<rparr>)"
  have c: "columnPass S t st col = addColumn S t col ?st3"
    by (simp add: columnPass_def Let_def)
  have g: "trace (addColumn S t col ?st3) = trace ?st3 @ newCalls ?st3 (addColumn S t col ?st3)"
    by (rule grows_addColumn)
  have "newCalls st (addColumn S t col ?st3) =
      SwitchToPage (startingPage st) # newCalls ?st3 (addColumn S t col ?st3)"
    by (subst (1) newCalls_def, subst g) simp
  then show ?thesis
    unfolding c .
qed

lemma frame_columns:
  "startingPosition (foldl (columnPass S t) st cs) = startingPosition st \<and>
   startingPage (foldl (columnPass S t) st cs) = startingPage st"
  by (induction cs arbitrary: st) (simp_all add: frame_columnPass)

lemma grows_columnPass:
  "trace (columnPass S t st col) = trace st @ newCalls st (columnPass S t st col)"
proof -
  let ?st3 = "emit S (SwitchToPage (startingPage st))
    (st\<lparr>currentPage := startingPage st,
        currentPosition := (currentPosition st)\<lparr>py := py (startingPosition st)\<rparr>\<rparr>)"
  have c: "columnPass S t st col = addColumn S t col ?st3"
    by (simp add: columnPass_def Let_def)
  have a: "trace ?st3 = trace st @ newCalls st ?st3"
    by (simp add: newCalls_def)
  show ?thesis
    unfolding c using grows_trans [OF a grows_addColumn] .
qed

lemma columnPass_first_event:
  "take 1 (events (newCalls st (columnPass S t st col))) =
     [HeaderRender (px (currentPosition st)) (py (startingPosition st))]"
proof -
  obtain evs where
    e: "events (trace (columnPass S t st col)) =
          events (trace st)
          @ HeaderRender (px (currentPosition st)) (py (startingPosition st)) # evs"
    using columnPass_events [of S t st col] by blast
  have "events (trace (columnPass S t st col)) =
      events (trace st) @ events (newCalls st (columnPass S t st col))"
    by (subst grows_columnPass) simp
  with e have "events (newCalls st (columnPass S t st col)) =
      HeaderRender (px (currentPosition st)) (py (startingPosition st)) # evs"
    by simp
  then show ?thesis by simp
qed

lemma checkedPages_append [simp]: "checkedPages (a @ b) = checkedPages a @ checkedPages b"
  by (simp add: checkedPages_def)

lemma checked_addHeader:
  "checkedPages (trace (addHeader S t col st)) = checkedPages (trace st)"
  by (simp add: addHeader_def Let_def checkedPages_def)

lemma checked_addRow_draw:
  "checkedPages (trace (addRow_draw S t row st)) = checkedPages (trace st)"
  by (simp add: addRow_draw_def Let_def checkedPages_def)

lemma checked_addRow:
  "checkedPages (trace (addRow S t col row st)) = checkedPages (trace st) @ [currentPage st]"
  by (simp add: addRow_def checked_addRow_draw addRow_pageBreak_def Let_def checked_addHeader)
     (simp add: checkedPages_def)

lemma checked_rows:
  "\<exists>ps. checkedPages (trace (foldl (\<lambda>s row. addRow S t col row s) st rs)) =
          checkedPages (trace st) @ (if rs = [] then [] else currentPage st # ps)"
proof (cases rs)
  case Nil
  then show ?thesis by simp
next
  case (Cons r rs')
  have "\<exists>ps. checkedPages (trace (foldl (\<lambda>s row. addRow S t col row s) st' rs')) =
          checkedPages (trace st') @ ps" for st'
  proof (induction rs' arbitrary: st')
    case Nil
    show ?case by simp
  next
    case (Cons a as)
    obtain ps where "checkedPages (trace (foldl (\<lambda>s row. addRow S t col row s)
        (addRow S t col a st') as)) = checkedPages (trace (addRow S t col a st')) @ ps"
      using Cons.IH [of "addRow S t col a st'"] by blast
    then show ?case by (simp add: checked_addRow)
  qed
  then obtain ps where "checkedPages (trace (foldl (\<lambda>s row. addRow S t col row s)
      (addRow S t col r st) rs')) = checkedPages (trace (addRow S t col r st)) @ ps"
    by blast
  then show ?thesis
    using Cons by (simp add: checked_addRow)
qed

lemma columnPass_first_check:
  "take 1 (checkedPages (newCalls st (columnPass S t st col))) =
     (if rows col = [] then [] else [startingPage st])"
proof -
  let ?st3 = "emit S (SwitchToPage (startingPage st))
    (st\<lparr>currentPage := startingPage st,
        currentPosition := (currentPosition st)\<lparr>py := py (startingPosition st)\<rparr>\<rparr>)"
  let ?st1 = "?st3\<lparr>columnWidth := calcColumnWidth t (contentWidth S (doc ?st3)) (width col)\<rparr>"
  obtain ps where
    r: "checkedPages (trace (foldl (\<lambda>s row. addRow S t col row s)
          (addHeader S t col ?st1) (rows col))) =
        checkedPages (trace (addHeader S t col ?st1))
        @ (if rows col = [] then [] else currentPage (addHeader S t col ?st1) # ps)"
    using checked_rows [of S t col "addHeader S t col ?st1" "rows col"] by blast
  have tr: "trace (columnPass S t st col) =
      trace (foldl (\<lambda>s row. addRow S t col row s) (addHeader S t col ?st1) (rows col))"
    by (simp add: columnPass_def addColumn_def Let_def)
  have "checkedPages (trace (columnPass S t st col)) =
      checkedPages (trace st) @ (if rows col = [] then [] else startingPage st # ps)"
    unfolding tr r by (simp add: checked_addHeader frame_addHeader) (simp add: checkedPages_def)
  moreover have "checkedPages (trace (columnPass S t st col)) =
      checkedPages (trace st) @ checkedPages (newCalls st (columnPass S t st col))"
    by (subst grows_columnPass) simp
  ultimately have "checkedPages (newCalls st (columnPass S t st col)) =
      (if rows col = [] then [] else startingPage st # ps)"
    by simp
  then show ?thesis by simp
qed

text \<open>
  C7. Each pass of the column loop of \<open>addToPDF\<close>, from any state of the loop, first
  switches the surface to the recorded starting page; it draws the column's header at
  the cursor's \<open>x\<close> and the recorded starting \<open>y\<close>, and the first page check of the
  column is asked about the recorded starting page. The cursor's \<open>x\<close> is not reset:
  after the pass it has advanced by the column's resolved width. The recorded
  starting page and position stay, through any number of passes, what \<open>addToPDF\<close>
  recorded at the start, and \<open>x\<close> starts at the page's left.
\<close>

theorem column_cursor_reset:
  "take 1 (newCalls st (columnPass S t st col)) = [SwitchToPage (startingPage st)] \<and>
   take 1 (events (newCalls st (columnPass S t st col))) =
     [HeaderRender (px (currentPosition st)) (py (startingPosition st))] \<and>
   take 1 (checkedPages (newCalls st (columnPass S t st col))) =
     (if rows col = [] then [] else [startingPage st]) \<and>
   px (currentPosition (columnPass S t st col)) =
     px (currentPosition st) + columnWidth (columnPass S t st col) \<and>
   columnWidth (columnPass S t st col) =
     calcColumnWidth t
       (contentWidth S (perform S (SwitchToPage (startingPage st)) (doc st))) (width col) \<and>
   startingPage (foldl (columnPass S t) (initState S d) cs) = pageCount S d - 1 \<and>
   startingPosition (foldl (columnPass S t) (initState S d) cs) =
     \<lparr>px = pageLeft S d, py = doc_y S d\<rparr> \<and>
   px (currentPosition (initState S d)) = pageLeft S d"
  using columnPass_calls [of st S t col] columnPass_first_event [of st S t col]
    columnPass_first_check [of st S t col] frame_columns [of S t "initState S d" cs]
  by (simp add: frame_columnPass initState_def)

text \<open>
  The second column of the sample table, laid out when the first one has ended on
  page 1 at \<open>y = 96\<close>: the surface is switched back to page 0, the header is drawn at
  \<open>(290, 680)\<close>, the first page check is about page 0, and \<open>x\<close> ends at 540.
\<close>

theorem column_cursor_reset_witness:
  "take 1 (newCalls (sampleState\<lparr>currentPage := 1, currentPosition := \<lparr>px = 290, py = 96\<rparr>\<rparr>)
      (columnPass sampleSurface sampleTable
         (sampleState\<lparr>currentPage := 1, currentPosition := \<lparr>px = 290, py = 96\<rparr>\<rparr>)
         (sampleColumn ''Name'' [''Billy'', ''Bob'', ''Suzy'']))) = [SwitchToPage 0] \<and>
   take 1 (events (newCalls
      (sampleState\<lparr>currentPage := 1, currentPosition := \<lparr>px = 290, py = 96\<rparr>\<rparr>)
      (columnPass sampleSurface sampleTable
         (sampleState\<lparr>currentPage := 1, currentPosition := \<lparr>px = 290, py = 96\<rparr>\<rparr>)
         (sampleColumn ''Name'' [''Billy'', ''Bob'', ''Suzy''])))) = [HeaderRender 290 680] \<and>
   take 1 (checkedPages (newCalls
      (sampleState\<lparr>currentPage := 1, currentPosition := \<lparr>px = 290, py = 96\<rparr>\<rparr>)
      (columnPass sampleSurface sampleTable
         (sampleState\<lparr>currentPage := 1, currentPosition := \<lparr>px = 290, py = 96\<rparr>\<rparr>)
         (sampleColumn ''Name'' [''Billy'', ''Bob'', ''Suzy''])))) = [0] \<and>
   px (currentPosition (columnPass sampleSurface sampleTable
         (sampleState\<lparr>currentPage := 1, currentPosition := \<lparr>px = 290, py = 96\<rparr>\<rparr>)
         (sampleColumn ''Name'' [''Billy'', ''Bob'', ''Suzy'']))) = 540"
proof -
  have s: "startingPage (sampleState\<lparr>currentPage := 1,
              currentPosition := \<lparr>px = 290, py = 96\<rparr>\<rparr>) = 0"
    "py (startingPosition (sampleState\<lparr>currentPage := 1,
              currentPosition := \<lparr>px = 290, py = 96\<rparr>\<rparr>)) = 680"
    "startingPage sampleState = 0"
    "py (startingPosition sampleState) = 680"
    by (simp_all add: surface_defs)
  have w: "calcColumnWidth sampleTable (contentWidth sampleSurface d)
             (width (sampleColumn ''Name'' [''Billy'', ''Bob'', ''Suzy''])) = 250" for d
    by (simp add: calcColumnWidth_def sample_columns sampleColumn_def sampleSurface_def)
  have r: "rows (sampleColumn ''Name'' [''Billy'', ''Bob'', ''Suzy'']) \<noteq> []"
    by (simp add: sampleColumn_def)
  show ?thesis
    using r column_cursor_reset [of
        "sampleState\<lparr>currentPage := 1, currentPosition := \<lparr>px = 290, py = 96\<rparr>\<rparr>"
        sampleSurface sampleTable "sampleColumn ''Name'' [''Billy'', ''Bob'', ''Suzy'']"
        sampleDoc "[]"]
    by (simp add: s w)
qed

end
